theory Spec2Isabelle
  imports Complex_Main "HOL-Library.Monad_Syntax"
begin

section \<open>Strings and numbers of the host language\<close>

text \<open>
  Strings are \<open>char list\<close>; the keys and pitch names of this program are ASCII.
  Numbers that the program prints (octaves, beat counts) are rendered in decimal.
\<close>

definition digit_char :: "nat \<Rightarrow> char" where
  "digit_char n = ''0123456789'' ! n"

function string_of_nat :: "nat \<Rightarrow> string" where
  "string_of_nat n =
     (if n < 10 then [digit_char n] else string_of_nat (n div 10) @ [digit_char (n mod 10)])"
  by pat_completeness auto
termination
  by (relation "measure id") auto

declare string_of_nat.simps [simp del]

definition string_of_int :: "int \<Rightarrow> string" where
  "string_of_int i = (if i < 0 then CHR ''-'' # string_of_nat (nat (- i)) else string_of_nat (nat i))"

definition is_digit :: "char \<Rightarrow> bool" where
  "is_digit c = (c \<in> set ''0123456789'')"

definition digit_val :: "char \<Rightarrow> int" where
  "digit_val c = int (of_char c) - 48"

text \<open>\<open>parseInt\<close> on a string of decimal digits (the only strings it is given here).\<close>

definition parseInt :: "string \<Rightarrow> int" where
  "parseInt s = foldl (\<lambda>a c. 10 * a + digit_val c) 0 s"

subsection \<open>Numbers\<close>

text \<open>
  A number of the host language is a finite value or one of \<open>NaN\<close>, \<open>Infinity\<close>,
  \<open>-Infinity\<close>. Finite values are kept as exact rationals: the durations of this program
  are sums of negative powers of two. The rounding of the binary floating-point format and
  the sign of zero are not modelled. A read of a missing table entry (\<open>undefined\<close>)
  that flows into arithmetic is \<open>NaN\<close>.
\<close>

datatype jsnum = Fin rat | PosInf | NegInf | NaN

fun jadd :: "jsnum \<Rightarrow> jsnum \<Rightarrow> jsnum" where
  "jadd NaN _ = NaN"
| "jadd _ NaN = NaN"
| "jadd (Fin a) (Fin b) = Fin (a + b)"
| "jadd PosInf NegInf = NaN"
| "jadd NegInf PosInf = NaN"
| "jadd PosInf _ = PosInf"
| "jadd _ PosInf = PosInf"
| "jadd NegInf _ = NegInf"
| "jadd _ NegInf = NegInf"

definition jneg :: "jsnum \<Rightarrow> jsnum" where
  "jneg x = (case x of Fin a \<Rightarrow> Fin (- a) | PosInf \<Rightarrow> NegInf | NegInf \<Rightarrow> PosInf | NaN \<Rightarrow> NaN)"

fun jmul :: "jsnum \<Rightarrow> jsnum \<Rightarrow> jsnum" where
  "jmul NaN _ = NaN"
| "jmul _ NaN = NaN"
| "jmul (Fin a) (Fin b) = Fin (a * b)"
| "jmul (Fin a) y = (if a = 0 then NaN else if a > 0 then y else jneg y)"
| "jmul x (Fin b) = (if b = 0 then NaN else if b > 0 then x else jneg x)"
| "jmul PosInf y = y"
| "jmul NegInf y = jneg y"

fun jdiv :: "jsnum \<Rightarrow> jsnum \<Rightarrow> jsnum" where
  "jdiv NaN _ = NaN"
| "jdiv _ NaN = NaN"
| "jdiv (Fin a) (Fin b) =
     (if b \<noteq> 0 then Fin (a / b)
      else if a > 0 then PosInf else if a < 0 then NegInf else NaN)"
| "jdiv (Fin a) _ = Fin 0"
| "jdiv x (Fin b) = (if b \<ge> 0 then x else jneg x)"
| "jdiv _ _ = NaN"

definition jfloor :: "jsnum \<Rightarrow> jsnum" where
  "jfloor x = (case x of Fin a \<Rightarrow> Fin (of_int \<lfloor>a\<rfloor>) | _ \<Rightarrow> x)"

text \<open>The remainder operator \<open>%\<close>: the result has the sign of the dividend.\<close>

definition rat_trunc :: "rat \<Rightarrow> int" where
  "rat_trunc q = (if q \<ge> 0 then \<lfloor>q\<rfloor> else \<lceil>q\<rceil>)"

fun jrem :: "jsnum \<Rightarrow> jsnum \<Rightarrow> jsnum" where
  "jrem (Fin a) (Fin b) = (if b = 0 then NaN else Fin (a - b * of_int (rat_trunc (a / b))))"
| "jrem (Fin a) PosInf = Fin a"
| "jrem (Fin a) NegInf = Fin a"
| "jrem _ _ = NaN"

text \<open>
  Number to string, as a template literal prints it: the integer part, then the digits of
  a finite decimal fraction (at most twenty of them). This is the text printed for the
  beat counts of the usual durations; exponent notation and the shortening of long
  fractions are not modelled.
\<close>

primrec frac_digits :: "nat \<Rightarrow> rat \<Rightarrow> string" where
  "frac_digits 0 f = []"
| "frac_digits (Suc k) f =
     (if f = 0 then []
      else digit_char (nat \<lfloor>f * 10\<rfloor>) # frac_digits k (f * 10 - of_int \<lfloor>f * 10\<rfloor>))"

definition string_of_rat :: "rat \<Rightarrow> string" where
  "string_of_rat q =
     (let a = \<bar>q\<bar>; f = a - of_int \<lfloor>a\<rfloor>
      in (if q < 0 then ''-'' else []) @ string_of_nat (nat \<lfloor>a\<rfloor>) @
         (if f = 0 then [] else CHR ''.'' # frac_digits 20 f))"

definition num_str :: "jsnum \<Rightarrow> string" where
  "num_str x =
     (case x of Fin q \<Rightarrow> string_of_rat q | PosInf \<Rightarrow> ''Infinity''
      | NegInf \<Rightarrow> ''-Infinity'' | NaN \<Rightarrow> ''NaN'')"

subsection \<open>Case conversion\<close>

text \<open>\<open>String.prototype.toUpperCase\<close> and \<open>toLowerCase\<close> on ASCII text.\<close>

definition upper_char :: "char \<Rightarrow> char" where
  "upper_char c =
     (case map_of (zip ''abcdefghijklmnopqrstuvwxyz'' ''ABCDEFGHIJKLMNOPQRSTUVWXYZ'') c of
        Some u \<Rightarrow> u | None \<Rightarrow> c)"

definition lower_char :: "char \<Rightarrow> char" where
  "lower_char c =
     (case map_of (zip ''ABCDEFGHIJKLMNOPQRSTUVWXYZ'' ''abcdefghijklmnopqrstuvwxyz'') c of
        Some l \<Rightarrow> l | None \<Rightarrow> c)"

definition toUpperCase :: "string \<Rightarrow> string" where
  "toUpperCase s = map upper_char s"

definition toLowerCase :: "string \<Rightarrow> string" where
  "toLowerCase s = map lower_char s"

section \<open>Musical types (types/musical.ts)\<close>

datatype Accidental = Sharp | Flat | Natural



text \<open>\<open>Duration | DottedDuration\<close>: a bare duration, or an object with a dot count.\<close>

datatype DurationSpec = Plain string | Dotted string int

datatype TupletType = Triplet | Quintuplet | Sextuplet | Septuplet

datatype BarStyle = Single | Double | End | RepeatStart | RepeatEnd

datatype KeyMode = Major | Minor

text \<open>
  \<open>MusicalElement\<close> is a union tagged by \<open>type\<close>. The fields are, in order:
  \<open>Note\<close> pitch, duration, articulations, accidental, dynamic, tuplet;
  \<open>Chord\<close> pitches, duration, articulations, dynamic; \<open>Barline\<close> style;
  \<open>TimeSignature\<close> numerator, denominator; \<open>KeySignature\<close> key, mode;
  \<open>TempoMarking\<close> bpm, reference. Optional fields are \<open>option\<close>s;
  articulations and dynamics are strings (cast from key-mapping values). \<open>Unknown\<close> is an
  object with any other \<open>type\<close> tag, which \<open>validateMusicalElement\<close> still has a branch
  for.
\<close>

datatype MusicalElement =
    Note string DurationSpec "string list option" "Accidental option" "string option"
         "TupletType option"
  | Rest DurationSpec
  | Chord "string list" DurationSpec "string list option" "string option"
  | Barline "BarStyle option"
  | TimeSignature rat rat
  | KeySignature string KeyMode
  | TempoMarking rat "string option"
  | Unknown string

section \<open>Pitch strings (utils/musical-helpers.ts, utils/validation.ts)\<close>

record ParsedPitch =
  pitch_note :: string
  pitch_accidental :: "Accidental option"
  pitch_octave :: int

text \<open>
  The regular expression \<^verbatim>\<open>/^([A-G])([#b]?)(\d)$/\<close>: the three captured groups, or
  \<open>None\<close> when the string does not match.
\<close>

definition is_note_letter :: "char \<Rightarrow> bool" where
  "is_note_letter c = (c \<in> set ''ABCDEFG'')"

fun match_pitch :: "string \<Rightarrow> (string \<times> string \<times> string) option" where
  "match_pitch [n, d] =
     (if is_note_letter n \<and> is_digit d then Some ([n], [], [d]) else None)"
| "match_pitch [n, a, d] =
     (if is_note_letter n \<and> (a = CHR ''#'' \<or> a = CHR ''b'') \<and> is_digit d
      then Some ([n], [a], [d]) else None)"
| "match_pitch _ = None"

definition parsePitchString :: "string \<Rightarrow> ParsedPitch option" where
  "parsePitchString pitch =
     (case match_pitch pitch of
        None \<Rightarrow> None
      | Some (n, a, octaveStr) \<Rightarrow>
          Some \<lparr>pitch_note = n,
                pitch_accidental = (if a = ''#'' then Some Sharp else if a = ''b'' then Some Flat else None),
                pitch_octave = parseInt octaveStr\<rparr>)"

definition formatPitch :: "string \<Rightarrow> Accidental option \<Rightarrow> int \<Rightarrow> string" where
  "formatPitch n acc oct =
     (let accidentalStr = (if acc = Some Sharp then ''#'' else if acc = Some Flat then ''b'' else '''')
      in n @ accidentalStr @ string_of_int oct)"

definition isValidNoteName :: "string \<Rightarrow> bool" where
  "isValidNoteName name = (toUpperCase name \<in> set [''C'', ''D'', ''E'', ''F'', ''G'', ''A'', ''B''])"

text \<open>An octave is an integer here, so the \<open>Number.isInteger\<close> test of \<open>isValidOctave\<close> holds.\<close>

definition isValidOctave :: "int \<Rightarrow> bool" where
  "isValidOctave oct = (oct \<ge> 0 \<and> oct \<le> 8)"

definition isValidDuration :: "string \<Rightarrow> bool" where
  "isValidDuration d =
     (d \<in> set [''whole'', ''half'', ''quarter'', ''eighth'', ''sixteenth'',
               ''thirty-second'', ''sixty-fourth''])"

definition isValidPitch :: "string \<Rightarrow> bool" where
  "isValidPitch pitch =
     (case match_pitch pitch of
        None \<Rightarrow> False
      | Some (n, a, octaveStr) \<Rightarrow> isValidNoteName n \<and> isValidOctave (parseInt octaveStr))"

text \<open>
  The strings the specification calls valid pitches: a letter \<open>A\<close>..\<open>G\<close>, an optional
  \<open>#\<close> or \<open>b\<close>, and one digit \<open>0\<close>..\<open>8\<close>.
\<close>

definition spec_pitch_string :: "string \<Rightarrow> bool" where
  "spec_pitch_string p =
     (case p of
        [n, d] \<Rightarrow> n \<in> set ''ABCDEFG'' \<and> d \<in> set ''012345678''
      | [n, a, d] \<Rightarrow> n \<in> set ''ABCDEFG'' \<and> a \<in> set ''#b'' \<and> d \<in> set ''012345678''
      | _ \<Rightarrow> False)"

section \<open>Durations (utils/musical-helpers.ts)\<close>

definition baseValues :: "(string \<times> rat) list" where
  "baseValues =
     [(''whole'', 1), (''half'', 1/2), (''quarter'', 1/4), (''eighth'', 1/8),
      (''sixteenth'', 1/16), (''thirty-second'', 1/32), (''sixty-fourth'', 1/64)]"

text \<open>The loop \<^verbatim>\<open>for (i = 0; i < dots; i++) { dotValue /= 2; value += dotValue }\<close>.\<close>

fun dot_loop :: "nat \<Rightarrow> jsnum \<times> jsnum \<Rightarrow> jsnum \<times> jsnum" where
  "dot_loop 0 (v, dotValue) = (v, dotValue)"
| "dot_loop (Suc k) (v, dotValue) =
     dot_loop k (jadd v (jdiv dotValue (Fin 2)), jdiv dotValue (Fin 2))"

definition getDurationValue :: "DurationSpec \<Rightarrow> jsnum" where
  "getDurationValue duration =
     (let baseDuration = (case duration of Dotted d n \<Rightarrow> d | Plain d \<Rightarrow> d);
          dots = (case duration of Dotted d n \<Rightarrow> n | Plain d \<Rightarrow> 0);
          v = (case map_of baseValues baseDuration of Some b \<Rightarrow> Fin b | None \<Rightarrow> NaN)
      in fst (dot_loop (nat dots) (v, v)))"

section \<open>Fragments (types/musical.ts, utils/musical-helpers.ts)\<close>

text \<open>
  Instants of time are milliseconds since the epoch; a fragment's \<open>timestamp\<close> is kept
  as the instant whose ISO rendering the program stores. Every operation that reads the
  clock takes the reading \<open>now\<close> as an argument, one reading for the whole call. The
  optional \<open>startTime\<close> and \<open>endTime\<close> of the metadata are never set by the program
  and are left out.
\<close>

record TimeSig =
  numerator :: rat
  denominator :: rat

record KeySig =
  sig_key :: string
  sig_mode :: KeyMode

record FragmentMetadata =
  measures :: nat
  totalDuration :: string

record MusicalFragment =
  frag_id :: string
  timestamp :: int
  timeSignature :: TimeSig
  keySignature :: KeySig
  tempo :: rat
  elements :: "MusicalElement list"
  metadata :: FragmentMetadata

fun element_duration :: "MusicalElement \<Rightarrow> DurationSpec option" where
  "element_duration (Note p d ar ac dy tu) = Some d"
| "element_duration (Rest d) = Some d"
| "element_duration (Chord ps d ar dy) = Some d"
| "element_duration _ = None"

definition calculateFragmentDuration :: "MusicalElement list \<Rightarrow> TimeSig \<Rightarrow> string" where
  "calculateFragmentDuration els ts =
     (let totalBeats =
            foldl (\<lambda>t e. case element_duration e of
                             Some d \<Rightarrow> jadd t (jmul (getDurationValue d) (Fin (denominator ts)))
                           | None \<Rightarrow> t) (Fin 0) els;
          ms = jfloor (jdiv totalBeats (Fin (numerator ts)));
          remainingBeats = jrem totalBeats (Fin (numerator ts))
      in if remainingBeats = Fin 0 then num_str ms
         else num_str ms @ ''.'' @ num_str remainingBeats @ ''/'' @ num_str (Fin (numerator ts)))"

fun is_barline :: "MusicalElement \<Rightarrow> bool" where
  "is_barline (Barline st) = True"
| "is_barline _ = False"

definition countMeasures :: "MusicalElement list \<Rightarrow> nat" where
  "countMeasures els = length (filter is_barline els)"

definition createEmptyFragment :: "TimeSig \<Rightarrow> KeySig \<Rightarrow> rat \<Rightarrow> int \<Rightarrow> MusicalFragment" where
  "createEmptyFragment ts ks bpm now =
     \<lparr>frag_id = ''fragment_'' @ string_of_int now, timestamp = now, timeSignature = ts,
      keySignature = ks, tempo = bpm, elements = [],
      metadata = \<lparr>measures = 0, totalDuration = ''0''\<rparr>\<rparr>"

section \<open>Validation (utils/validation.ts)\<close>

text \<open>\<open>Array.prototype.join\<close>.\<close>

fun join :: "string \<Rightarrow> string list \<Rightarrow> string" where
  "join sep [] = []"
| "join sep [x] = x"
| "join sep (x # y # ys) = x @ sep @ join sep (y # ys)"

fun base_duration :: "DurationSpec \<Rightarrow> string" where
  "base_duration (Plain d) = d"
| "base_duration (Dotted d n) = d"

fun negative_dots :: "DurationSpec \<Rightarrow> bool" where
  "negative_dots (Plain d) = False"
| "negative_dots (Dotted d n) = (n < 0)"

definition validateNote :: "string \<Rightarrow> DurationSpec \<Rightarrow> string list" where
  "validateNote p d =
     (if \<not> isValidPitch p then [''Invalid pitch: '' @ p] else []) @
     (if \<not> isValidDuration (base_duration d) then [''Invalid duration: '' @ base_duration d] else []) @
     (if negative_dots d then [''Dots cannot be negative''] else [])"

definition validateChord :: "string list \<Rightarrow> DurationSpec \<Rightarrow> string list" where
  "validateChord ps d =
     (if length ps = 0 then [''Chord must have at least one pitch''] else []) @
     concat (map (\<lambda>p. if \<not> isValidPitch p then [''Invalid pitch in chord: '' @ p] else []) ps) @
     (if \<not> isValidDuration (base_duration d) then [''Invalid duration: '' @ base_duration d] else [])"

definition isInteger :: "rat \<Rightarrow> bool" where
  "isInteger q = (of_int \<lfloor>q\<rfloor> = q)"

definition validDenominators :: "rat list" where
  "validDenominators = [1, 2, 4, 8, 16, 32, 64]"

definition validateTimeSignature :: "rat \<Rightarrow> rat \<Rightarrow> string list" where
  "validateTimeSignature n d =
     (if \<not> isInteger n \<or> n < 1 then [''Time signature numerator must be a positive integer'']
      else []) @
     (if d \<notin> set validDenominators
      then [''Time signature denominator must be one of: ''
              @ join '', '' (map (\<lambda>q. num_str (Fin q)) validDenominators)]
      else [])"

fun validateMusicalElement :: "MusicalElement \<Rightarrow> string list" where
  "validateMusicalElement (Note p d ar ac dy tu) = validateNote p d"
| "validateMusicalElement (Chord ps d ar dy) = validateChord ps d"
| "validateMusicalElement (TimeSignature n d) = validateTimeSignature n d"
| "validateMusicalElement (Rest d) = []"
| "validateMusicalElement (Barline st) = []"
| "validateMusicalElement (KeySignature k m) = []"
| "validateMusicalElement (TempoMarking b r) = []"
| "validateMusicalElement (Unknown ty) = [''Unknown element type: '' @ ty]"

fun is_signature :: "MusicalElement \<Rightarrow> bool" where
  "is_signature (TimeSignature n d) = True"
| "is_signature (KeySignature k m) = True"
| "is_signature _ = False"

fun is_note_or_rest :: "MusicalElement \<Rightarrow> bool" where
  "is_note_or_rest (Note p d ar ac dy tu) = True"
| "is_note_or_rest (Rest d) = True"
| "is_note_or_rest _ = False"

text \<open>The result \<open>{valid, reason?}\<close>: \<open>None\<close> is valid, \<open>Some reason\<close> is not.\<close>

definition canAddElementToFragment :: "MusicalElement \<Rightarrow> MusicalElement list \<Rightarrow> string option" where
  "canAddElementToFragment element currentElements =
     (if is_signature element \<and> (\<exists>e \<in> set currentElements. is_note_or_rest e)
      then Some ''Time and key signatures should be placed before notes''
      else None)"

section \<open>The fragment manager (core/FragmentManager.ts)\<close>

datatype Action = Add | Delete | Clear | Modify

record FragmentHistoryEntry =
  fragment :: MusicalFragment
  entry_timestamp :: int
  action :: Action

text \<open>
  The manager's fields. The manager never mutates an element object, and every snapshot,
  undo and redo copies the element array, so in this section a fragment is a value. The
  sharing of element objects with callers is the subject of the store model further down.
\<close>

record FragmentManager =
  currentFragment :: MusicalFragment
  history :: "FragmentHistoryEntry list"
  historyIndex :: int
  maxHistorySize :: int
  committedFragments :: "MusicalFragment list"

datatype js_error = TypeError

text \<open>\<open>xs.slice(0, e)\<close>: a negative end counts from the end of the array.\<close>

definition slice0 :: "'a list \<Rightarrow> int \<Rightarrow> 'a list" where
  "slice0 xs e = take (nat (if e < 0 then int (length xs) + e else e)) xs"

text \<open>\<open>xs[i]\<close>: \<open>None\<close> stands for \<open>undefined\<close>.\<close>

definition index_at :: "'a list \<Rightarrow> int \<Rightarrow> 'a option" where
  "index_at xs i = (if 0 \<le> i \<and> i < int (length xs) then Some (xs ! nat i) else None)"

definition saveToHistory :: "Action \<Rightarrow> int \<Rightarrow> FragmentManager \<Rightarrow> FragmentManager" where
  "saveToHistory act now m =
     (let h1 = (if historyIndex m < int (length (history m)) - 1
                then slice0 (history m) (historyIndex m + 1) else history m);
          entry = \<lparr>fragment = currentFragment m, entry_timestamp = now, action = act\<rparr>;
          h2 = h1 @ [entry];
          i2 = historyIndex m + 1
      in if int (length h2) > maxHistorySize m
         then m\<lparr>history := tl h2, historyIndex := i2 - 1\<rparr>
         else m\<lparr>history := h2, historyIndex := i2\<rparr>)"

definition new_FragmentManager ::
    "int \<Rightarrow> TimeSig \<Rightarrow> KeySig \<Rightarrow> rat \<Rightarrow> int \<Rightarrow> FragmentManager" where
  "new_FragmentManager maxSize ts ks bpm now =
     saveToHistory Clear now
       \<lparr>currentFragment = createEmptyFragment ts ks bpm now, history = [], historyIndex = - 1,
        maxHistorySize = maxSize, committedFragments = []\<rparr>"

definition default_FragmentManager :: "int \<Rightarrow> FragmentManager" where
  "default_FragmentManager now =
     new_FragmentManager 20 \<lparr>numerator = 4, denominator = 4\<rparr> \<lparr>sig_key = ''C'', sig_mode = Major\<rparr> 120 now"

definition getCurrentFragment :: "FragmentManager \<Rightarrow> MusicalFragment" where
  "getCurrentFragment m = currentFragment m"

definition updateMetadata :: "FragmentManager \<Rightarrow> FragmentManager" where
  "updateMetadata m =
     m\<lparr>currentFragment := (currentFragment m)
         \<lparr>metadata :=
            \<lparr>measures = countMeasures (elements (currentFragment m)),
             totalDuration = calculateFragmentDuration (elements (currentFragment m))
                               (timeSignature (currentFragment m))\<rparr>\<rparr>\<rparr>"

datatype AddResult = Success | Failure string

definition push_element :: "MusicalElement \<Rightarrow> FragmentManager \<Rightarrow> FragmentManager" where
  "push_element e m =
     m\<lparr>currentFragment := (currentFragment m)\<lparr>elements := elements (currentFragment m) @ [e]\<rparr>\<rparr>"

definition addElement ::
    "MusicalElement \<Rightarrow> int \<Rightarrow> FragmentManager \<Rightarrow> AddResult \<times> FragmentManager" where
  "addElement element now m =
     (let validationErrors = validateMusicalElement element
      in if length validationErrors > 0 then (Failure (join ''; '' validationErrors), m)
         else case canAddElementToFragment element (elements (currentFragment m)) of
                Some reason \<Rightarrow> (Failure reason, m)
              | None \<Rightarrow> (Success, saveToHistory Add now (updateMetadata (push_element element m))))"

definition set_elements :: "MusicalElement list \<Rightarrow> FragmentManager \<Rightarrow> FragmentManager" where
  "set_elements els m = m\<lparr>currentFragment := (currentFragment m)\<lparr>elements := els\<rparr>\<rparr>"

definition deleteLastElement ::
    "int \<Rightarrow> FragmentManager \<Rightarrow> MusicalElement option \<times> FragmentManager" where
  "deleteLastElement now m =
     (let els = elements (currentFragment m)
      in if length els = 0 then (None, m)
         else (Some (last els),
               saveToHistory Delete now (updateMetadata (set_elements (butlast els) m))))"

definition deleteElementAt ::
    "int \<Rightarrow> int \<Rightarrow> FragmentManager \<Rightarrow> MusicalElement option \<times> FragmentManager" where
  "deleteElementAt i now m =
     (let els = elements (currentFragment m)
      in if i < 0 \<or> i \<ge> int (length els) then (None, m)
         else (Some (els ! nat i),
               saveToHistory Delete now
                 (updateMetadata (set_elements (take (nat i) els @ drop (Suc (nat i)) els) m))))"

definition clear :: "int \<Rightarrow> FragmentManager \<Rightarrow> FragmentManager" where
  "clear now m =
     (let cf = currentFragment m
      in saveToHistory Clear now
           (m\<lparr>currentFragment :=
                createEmptyFragment (timeSignature cf) (keySignature cf) (tempo cf) now\<rparr>))"

text \<open>
  \<open>undo\<close> and \<open>redo\<close> read \<open>history[historyIndex]\<close> and then its \<open>fragment\<close>; on an
  index outside the array the read of \<open>fragment\<close> throws.
\<close>

definition undo :: "FragmentManager \<Rightarrow> js_error + (bool \<times> FragmentManager)" where
  "undo m =
     (if historyIndex m \<le> 0 then Inr (False, m)
      else case index_at (history m) (historyIndex m - 1) of
             None \<Rightarrow> Inl TypeError
           | Some entry \<Rightarrow>
               Inr (True, m\<lparr>historyIndex := historyIndex m - 1, currentFragment := fragment entry\<rparr>))"

definition redo :: "FragmentManager \<Rightarrow> js_error + (bool \<times> FragmentManager)" where
  "redo m =
     (if historyIndex m \<ge> int (length (history m)) - 1 then Inr (False, m)
      else case index_at (history m) (historyIndex m + 1) of
             None \<Rightarrow> Inl TypeError
           | Some entry \<Rightarrow>
               Inr (True, m\<lparr>historyIndex := historyIndex m + 1, currentFragment := fragment entry\<rparr>))"

definition canUndo :: "FragmentManager \<Rightarrow> bool" where
  "canUndo m = (historyIndex m > 0)"

definition canRedo :: "FragmentManager \<Rightarrow> bool" where
  "canRedo m = (historyIndex m < int (length (history m)) - 1)"

definition commit :: "int \<Rightarrow> FragmentManager \<Rightarrow> MusicalFragment \<times> FragmentManager" where
  "commit now m =
     (let committed = (getCurrentFragment m)\<lparr>timestamp := now\<rparr>;
          cf = currentFragment m
      in (committed,
          saveToHistory Clear now
            (m\<lparr>committedFragments := committedFragments m @ [committed],
               currentFragment :=
                 createEmptyFragment (timeSignature cf) (keySignature cf) (tempo cf) now,
               history := [], historyIndex := - 1\<rparr>)))"

definition getCommittedFragments :: "FragmentManager \<Rightarrow> MusicalFragment list" where
  "getCommittedFragments m = committedFragments m"

definition setTimeSignature :: "rat \<Rightarrow> rat \<Rightarrow> int \<Rightarrow> FragmentManager \<Rightarrow> FragmentManager" where
  "setTimeSignature n d now m =
     saveToHistory Modify now
       (updateMetadata
          (m\<lparr>currentFragment :=
               (currentFragment m)\<lparr>timeSignature := \<lparr>numerator = n, denominator = d\<rparr>\<rparr>\<rparr>))"

definition setKeySignature :: "string \<Rightarrow> KeyMode \<Rightarrow> int \<Rightarrow> FragmentManager \<Rightarrow> FragmentManager" where
  "setKeySignature k md now m =
     saveToHistory Modify now
       (m\<lparr>currentFragment := (currentFragment m)\<lparr>keySignature := \<lparr>sig_key = k, sig_mode = md\<rparr>\<rparr>\<rparr>)"

definition setTempo :: "rat \<Rightarrow> int \<Rightarrow> FragmentManager \<Rightarrow> FragmentManager" where
  "setTempo bpm now m =
     saveToHistory Modify now (m\<lparr>currentFragment := (currentFragment m)\<lparr>tempo := bpm\<rparr>\<rparr>)"


definition getElementCount :: "FragmentManager \<Rightarrow> nat" where
  "getElementCount m = length (elements (currentFragment m))"

text \<open>
  A call of one of the manager's mutating methods, with its arguments and the clock reading,
  and the run of a sequence of calls from a state; a thrown error ends the run.
\<close>

datatype fm_call =
    CallAddElement MusicalElement int
  | CallDeleteLastElement int
  | CallDeleteElementAt int int
  | CallClear int
  | CallUndo
  | CallRedo
  | CallCommit int
  | CallSetTimeSignature rat rat int
  | CallSetKeySignature string KeyMode int
  | CallSetTempo rat int

fun fm_step :: "fm_call \<Rightarrow> FragmentManager \<Rightarrow> js_error + FragmentManager" where
  "fm_step (CallAddElement e now) m = Inr (snd (addElement e now m))"
| "fm_step (CallDeleteLastElement now) m = Inr (snd (deleteLastElement now m))"
| "fm_step (CallDeleteElementAt i now) m = Inr (snd (deleteElementAt i now m))"
| "fm_step (CallClear now) m = Inr (clear now m)"
| "fm_step CallUndo m = (case undo m of Inl err \<Rightarrow> Inl err | Inr (ok, m') \<Rightarrow> Inr m')"
| "fm_step CallRedo m = (case redo m of Inl err \<Rightarrow> Inl err | Inr (ok, m') \<Rightarrow> Inr m')"
| "fm_step (CallCommit now) m = Inr (snd (commit now m))"
| "fm_step (CallSetTimeSignature n d now) m = Inr (setTimeSignature n d now m)"
| "fm_step (CallSetKeySignature k md now) m = Inr (setKeySignature k md now m)"
| "fm_step (CallSetTempo bpm now) m = Inr (setTempo bpm now m)"

fun fm_run :: "fm_call list \<Rightarrow> FragmentManager \<Rightarrow> js_error + FragmentManager" where
  "fm_run [] m = Inr m"
| "fm_run (c # cs) m = (case fm_step c m of Inl err \<Rightarrow> Inl err | Inr m' \<Rightarrow> fm_run cs m')"

text \<open>
  The history invariants: the cursor indexes an entry, the history holds at most
  \<open>maxHistorySize\<close> entries, and the entry under the cursor is a snapshot of the working
  fragment.
\<close>

definition history_ok :: "FragmentManager \<Rightarrow> bool" where
  "history_ok m =
     (0 \<le> historyIndex m \<and> historyIndex m < int (length (history m))
      \<and> int (length (history m)) \<le> maxHistorySize m)"

definition cursor_current :: "FragmentManager \<Rightarrow> bool" where
  "cursor_current m =
     (map_option fragment (index_at (history m) (historyIndex m)) = Some (currentFragment m))"

definition fm_ok :: "FragmentManager \<Rightarrow> bool" where
  "fm_ok m = (history_ok m \<and> cursor_current m)"

text \<open>Concrete inputs used in the examples below.\<close>

definition note_C4 :: MusicalElement where
  "note_C4 = Note ''C4'' (Plain ''quarter'') None None None None"

definition note_H4 :: MusicalElement where
  "note_H4 = Note ''H4'' (Plain ''quarter'') None None None None"

definition ts44 :: TimeSig where
  "ts44 = \<lparr>numerator = 4, denominator = 4\<rparr>"

definition ksC :: KeySig where
  "ksC = \<lparr>sig_key = ''C'', sig_mode = Major\<rparr>"

definition tiny_manager :: FragmentManager where
  "tiny_manager = new_FragmentManager 1 ts44 ksC 120 0"

section \<open>The capture orchestrator: commit (core/NotationCapture.ts)\<close>








section \<open>Key mappings (types/config.ts)\<close>

text \<open>
  A key-mapping dictionary \<open>Record<string, string>\<close> is an association list. The
  program reads it as \<open>dict[k]\<close> and tests the result for truthiness, so a missing
  key and an empty string both count as no mapping. Only the dictionary's own entries are
  looked up; key names are never names of inherited object properties.
\<close>

type_synonym dict = "(string \<times> string) list"

definition lookup_truthy :: "dict \<Rightarrow> string \<Rightarrow> string option" where
  "lookup_truthy d k =
     (case map_of d k of None \<Rightarrow> None | Some v \<Rightarrow> if v = [] then None else Some v)"

record KeyMappings =
  durations :: dict
  pitches :: dict
  modifiers :: dict
  controls :: dict
  articulations :: dict
  dynamics :: dict

definition DEFAULT_KEY_MAPPINGS :: KeyMappings where
  "DEFAULT_KEY_MAPPINGS =
     \<lparr>durations =
        [(''1'', ''whole''), (''2'', ''half''), (''4'', ''quarter''), (''8'', ''eighth''),
         (''6'', ''sixteenth''), (''3'', ''dotted-quarter''), (''7'', ''triplet-eighth'')],
      pitches =
        [(''c'', ''C''), (''d'', ''D''), (''e'', ''E''), (''f'', ''F''), (''g'', ''G''),
         (''a'', ''A''), (''b'', ''B'')],
      modifiers = [(''shift'', ''sharp''), (''alt'', ''flat''), (''ctrl'', ''chord'')],
      controls =
        [(''Enter'', ''commit''), (''Space'', ''rest''), (''Backspace'', ''delete''),
         (''Tab'', ''barline''), (''Escape'', ''clear''), (''ArrowUp'', ''octave-up''),
         (''ArrowDown'', ''octave-down''), (''0'', ''octave-reset''), (''.'', ''add-dot''),
         (''t'', ''toggle-triplet''), (''r'', ''rest''), (''z'', ''undo''), (''y'', ''redo'')],
      articulations =
        [(''>'', ''accent''), (''^'', ''marcato''), (''~'', ''trill''), (''-'', ''tenuto''),
         ([CHR 0x27], ''staccato'')],
      dynamics =
        [(''F1'', ''pp''), (''F2'', ''p''), (''F3'', ''mp''), (''F4'', ''mf''), (''F5'', ''f''),
         (''F6'', ''ff''), (''F7'', ''fff''), (''F8'', ''ffff'')]\<rparr>"

section \<open>The shortcut engine (core/ShortcutEngine.ts)\<close>

record KeyboardInput =
  key :: string
  shiftKey :: bool
  altKey :: bool
  ctrlKey :: bool
  metaKey :: bool

datatype InputMode = CAPTURE | PAUSED | STOPPED | CHORD_MODE | ERROR

text \<open>
  \<open>ProcessedInput\<close> is \<open>{type, data?, error?}\<close>. The \<open>data\<close> of a \<open>control\<close> result is
  an action name or a barline element; the \<open>data\<close> of a \<open>modifier\<close> result is one of the
  seven shapes the engine builds.
\<close>

datatype ControlData = ActionData string | ElementData MusicalElement

datatype ModifierData =
    OctaveData int
  | DottedData bool
  | TripletData bool
  | DurationData string bool bool
  | ArticulationData string
  | DynamicData string
  | ChordNotesData "string list"

datatype ProcessedInput =
    NoteInput MusicalElement
  | RestInput MusicalElement
  | ChordInput MusicalElement
  | ControlInput ControlData
  | ModifierInput ModifierData
  | InvalidInput string

record ShortcutEngine =
  keyMappings :: KeyMappings
  currentDuration :: string
  currentOctave :: int
  isDotted :: bool
  isTriplet :: bool
  chordNotes :: "string list"
  lastNoteTime :: int

definition new_ShortcutEngine :: "KeyMappings \<Rightarrow> ShortcutEngine" where
  "new_ShortcutEngine km =
     \<lparr>keyMappings = km, currentDuration = ''quarter'', currentOctave = 4, isDotted = False,
      isTriplet = False, chordNotes = [], lastNoteTime = 0\<rparr>"

definition getDurationWithModifiers :: "ShortcutEngine \<Rightarrow> DurationSpec" where
  "getDurationWithModifiers eng =
     (if isDotted eng then Dotted (currentDuration eng) 1 else Plain (currentDuration eng))"

definition createNote :: "string \<Rightarrow> Accidental option \<Rightarrow> ShortcutEngine \<Rightarrow> ProcessedInput" where
  "createNote p acc eng =
     NoteInput (Note p (getDurationWithModifiers eng) None acc None
                  (if isTriplet eng then Some Triplet else None))"

definition createRest :: "ShortcutEngine \<Rightarrow> ProcessedInput" where
  "createRest eng = RestInput (Rest (getDurationWithModifiers eng))"

definition createBarline :: ProcessedInput where
  "createBarline = ControlInput (ElementData (Barline (Some Single)))"

definition completeChord :: "ShortcutEngine \<Rightarrow> ProcessedInput \<times> ShortcutEngine" where
  "completeChord eng =
     (if length (chordNotes eng) = 0 then (InvalidInput ''No notes in chord'', eng)
      else (ChordInput (Chord (chordNotes eng) (getDurationWithModifiers eng) None None),
            eng\<lparr>chordNotes := []\<rparr>))"

definition changeOctave :: "int \<Rightarrow> ShortcutEngine \<Rightarrow> ProcessedInput \<times> ShortcutEngine" where
  "changeOctave delta eng =
     (let newOctave = currentOctave eng + delta
      in if newOctave \<ge> 0 \<and> newOctave \<le> 8
         then (ModifierInput (OctaveData newOctave), eng\<lparr>currentOctave := newOctave\<rparr>)
         else (InvalidInput ''Octave out of range'', eng))"

text \<open>The \<open>null\<close> result of the \<open>process...\<close> helpers is \<open>None\<close>.\<close>

definition processControlCommand ::
    "KeyboardInput \<Rightarrow> ShortcutEngine \<Rightarrow> ProcessedInput option \<times> ShortcutEngine" where
  "processControlCommand input eng =
     (case lookup_truthy (controls (keyMappings eng)) (key input) of
        None \<Rightarrow> (None, eng)
      | Some control \<Rightarrow>
          if control = ''commit'' then (Some (ControlInput (ActionData ''commit'')), eng)
          else if control = ''rest'' then (Some (createRest eng), eng)
          else if control = ''delete'' then (Some (ControlInput (ActionData ''delete'')), eng)
          else if control = ''barline'' then (Some createBarline, eng)
          else if control = ''clear'' then (Some (ControlInput (ActionData ''clear'')), eng)
          else if control = ''octave-up'' then
            (let (r, eng') = changeOctave 1 eng in (Some r, eng'))
          else if control = ''octave-down'' then
            (let (r, eng') = changeOctave (- 1) eng in (Some r, eng'))
          else if control = ''octave-reset'' then
            (Some (ModifierInput (OctaveData 4)), eng\<lparr>currentOctave := 4\<rparr>)
          else if control = ''add-dot'' then
            (Some (ModifierInput (DottedData (\<not> isDotted eng))), eng\<lparr>isDotted := \<not> isDotted eng\<rparr>)
          else if control = ''toggle-triplet'' then
            (Some (ModifierInput (TripletData (\<not> isTriplet eng))),
             eng\<lparr>isTriplet := \<not> isTriplet eng\<rparr>)
          else if control = ''undo'' then
            (if ctrlKey input then (Some (ControlInput (ActionData ''undo'')), eng) else (None, eng))
          else if control = ''redo'' then
            (if ctrlKey input then (Some (ControlInput (ActionData ''redo'')), eng) else (None, eng))
          else (None, eng))"

definition processDurationChange ::
    "KeyboardInput \<Rightarrow> ShortcutEngine \<Rightarrow> ProcessedInput option \<times> ShortcutEngine" where
  "processDurationChange input eng =
     (case lookup_truthy (durations (keyMappings eng)) (key input) of
        None \<Rightarrow> (None, eng)
      | Some duration \<Rightarrow>
          let eng' =
                (if duration = ''dotted-quarter''
                 then eng\<lparr>currentDuration := ''quarter'', isDotted := True, isTriplet := False\<rparr>
                 else if duration = ''triplet-eighth''
                 then eng\<lparr>currentDuration := ''eighth'', isTriplet := True, isDotted := False\<rparr>
                 else eng\<lparr>currentDuration := duration, isDotted := False, isTriplet := False\<rparr>)
          in (Some (ModifierInput
                      (DurationData (currentDuration eng') (isDotted eng') (isTriplet eng'))),
              eng'))"

definition processArticulation :: "KeyboardInput \<Rightarrow> ShortcutEngine \<Rightarrow> ProcessedInput option" where
  "processArticulation input eng =
     map_option (\<lambda>a. ModifierInput (ArticulationData a))
       (lookup_truthy (articulations (keyMappings eng)) (key input))"

definition processDynamic :: "KeyboardInput \<Rightarrow> ShortcutEngine \<Rightarrow> ProcessedInput option" where
  "processDynamic input eng =
     map_option (\<lambda>d. ModifierInput (DynamicData d))
       (lookup_truthy (dynamics (keyMappings eng)) (key input))"

definition input_accidental :: "KeyboardInput \<Rightarrow> Accidental option" where
  "input_accidental input =
     (if shiftKey input then Some Sharp else if altKey input then Some Flat else None)"

definition processNoteInput ::
    "KeyboardInput \<Rightarrow> int \<Rightarrow> ShortcutEngine \<Rightarrow> ProcessedInput option \<times> ShortcutEngine" where
  "processNoteInput input now eng =
     (case lookup_truthy (pitches (keyMappings eng)) (toLowerCase (key input)) of
        None \<Rightarrow> (None, eng)
      | Some noteLetter \<Rightarrow>
          let acc = input_accidental input;
              p = formatPitch noteLetter acc (currentOctave eng)
          in if ctrlKey input
             then (Some (ControlInput (ActionData ''enter-chord-mode'')),
                   eng\<lparr>chordNotes := [p], lastNoteTime := now\<rparr>)
             else (Some (createNote p acc eng), eng))"

definition processChordNote ::
    "KeyboardInput \<Rightarrow> int \<Rightarrow> ShortcutEngine \<Rightarrow> ProcessedInput \<times> ShortcutEngine" where
  "processChordNote input now eng =
     (if key input = ''Enter'' then completeChord eng
      else case lookup_truthy (pitches (keyMappings eng)) (toLowerCase (key input)) of
             Some noteLetter \<Rightarrow>
               let acc = input_accidental input;
                   p = formatPitch noteLetter acc (currentOctave eng);
                   notes = (if p \<in> set (chordNotes eng) then chordNotes eng
                            else chordNotes eng @ [p])
               in (ModifierInput (ChordNotesData notes),
                   eng\<lparr>chordNotes := notes, lastNoteTime := now\<rparr>)
           | None \<Rightarrow> (InvalidInput ''Invalid chord note input'', eng))"

definition processKeyInput ::
    "KeyboardInput \<Rightarrow> InputMode \<Rightarrow> int \<Rightarrow> ShortcutEngine \<Rightarrow> ProcessedInput \<times> ShortcutEngine" where
  "processKeyInput input md now eng =
     (if md = STOPPED \<or> md = ERROR then (InvalidInput ''Input not accepted in current mode'', eng)
      else case processControlCommand input eng of
        (Some controlResult, eng1) \<Rightarrow> (controlResult, eng1)
      | (None, eng1) \<Rightarrow>
          if md = CHORD_MODE \<and> \<not> ctrlKey input then processChordNote input now eng1
          else case processDurationChange input eng1 of
            (Some durationResult, eng2) \<Rightarrow> (durationResult, eng2)
          | (None, eng2) \<Rightarrow>
              (case processArticulation input eng2 of
                 Some articulationResult \<Rightarrow> (articulationResult, eng2)
               | None \<Rightarrow>
                   (case processDynamic input eng2 of
                      Some dynamicResult \<Rightarrow> (dynamicResult, eng2)
                    | None \<Rightarrow>
                        (case processNoteInput input now eng2 of
                           (Some noteResult, eng3) \<Rightarrow> (noteResult, eng3)
                         | (None, eng3) \<Rightarrow> (InvalidInput ''Unrecognized input'', eng3)))))"

definition getCurrentState :: "ShortcutEngine \<Rightarrow> string \<times> int \<times> bool \<times> bool \<times> string list" where
  "getCurrentState eng =
     (currentDuration eng, currentOctave eng, isDotted eng, isTriplet eng, chordNotes eng)"

definition reset :: "ShortcutEngine \<Rightarrow> ShortcutEngine" where
  "reset eng =
     eng\<lparr>currentDuration := ''quarter'', currentOctave := 4, isDotted := False,
         isTriplet := False, chordNotes := []\<rparr>"

text \<open>
  The chord flow of the test suite: Ctrl+C in capture mode, then E, G and Enter in chord
  mode, on a fresh engine with the default key mappings. \<open>chord_flow_3\<close> is the engine
  after the first three keys.
\<close>

definition plain_key :: "string \<Rightarrow> KeyboardInput" where
  "plain_key k = \<lparr>key = k, shiftKey = False, altKey = False, ctrlKey = False, metaKey = False\<rparr>"

definition ctrl_key :: "string \<Rightarrow> KeyboardInput" where
  "ctrl_key k = \<lparr>key = k, shiftKey = False, altKey = False, ctrlKey = True, metaKey = False\<rparr>"

definition chord_flow_1 :: "ProcessedInput \<times> ShortcutEngine" where
  "chord_flow_1 = processKeyInput (ctrl_key ''c'') CAPTURE 1 (new_ShortcutEngine DEFAULT_KEY_MAPPINGS)"

definition chord_flow_2 :: "ProcessedInput \<times> ShortcutEngine" where
  "chord_flow_2 = processKeyInput (plain_key ''e'') CHORD_MODE 2 (snd chord_flow_1)"

definition chord_flow_3 :: "ProcessedInput \<times> ShortcutEngine" where
  "chord_flow_3 = processKeyInput (plain_key ''g'') CHORD_MODE 3 (snd chord_flow_2)"

definition chord_flow_4 :: "ProcessedInput \<times> ShortcutEngine" where
  "chord_flow_4 = processKeyInput (plain_key ''Enter'') CHORD_MODE 4 (snd chord_flow_3)"

section \<open>Configuration (types/config.ts, core/ConfigurationManager.ts)\<close>

text \<open>
  The numeric fields of a behavior configuration hold a number or \<open>null\<close> (\<open>None\<close>):
  \<open>autoCommitDelay\<close> is declared so, and the others can become \<open>null\<close> through an
  import, whose cast is unchecked. The enumerated strings are kept as strings, as the
  validation tests them.
\<close>

record RenderingConfig =
  previewSize :: string
  showKeySignature :: bool
  showTimeSignature :: bool
  autoScroll :: bool
  highlightCurrentElement :: bool
  theme :: "string option"

record BehaviorConfig =
  autoCommitDelay :: "jsnum option"
  undoHistorySize :: "jsnum option"
  defaultDuration :: string
  defaultOctave :: "jsnum option"
  chordModeTimeout :: "jsnum option"
  errorRecoveryMode :: string
  debounceDelay :: "jsnum option"

text \<open>
  A key-mappings object held by a configuration is a dictionary from category names to
  dictionaries: an imported one need not have all six categories. \<open>keyMappings\<close> is such
  an object or the literal \<open>'default'\<close>.
\<close>

type_synonym mappings_object = "(string \<times> dict) list"

datatype KeyMappingsSetting = DefaultMappings | CustomMappings mappings_object

record NotationConfig =
  cfg_keyMappings :: KeyMappingsSetting
  rendering :: RenderingConfig
  behavior :: BehaviorConfig




text \<open>
  \<open>Partial<RenderingConfig>\<close> and \<open>Partial<BehaviorConfig>\<close>: the properties that are
  present, in order; the spread \<^verbatim>\<open>{...base, ...partial}\<close> writes them over the base.
\<close>

datatype RenderingProp =
    PreviewSize string
  | ShowKeySignature bool
  | ShowTimeSignature bool
  | AutoScroll bool
  | HighlightCurrentElement bool
  | Theme "string option"

datatype BehaviorProp =
    AutoCommitDelay "jsnum option"
  | UndoHistorySize jsnum
  | DefaultDuration string
  | DefaultOctave jsnum
  | ChordModeTimeout jsnum
  | ErrorRecoveryMode string
  | DebounceDelay jsnum

fun set_rendering :: "RenderingConfig \<Rightarrow> RenderingProp \<Rightarrow> RenderingConfig" where
  "set_rendering r (PreviewSize v) = r\<lparr>previewSize := v\<rparr>"
| "set_rendering r (ShowKeySignature v) = r\<lparr>showKeySignature := v\<rparr>"
| "set_rendering r (ShowTimeSignature v) = r\<lparr>showTimeSignature := v\<rparr>"
| "set_rendering r (AutoScroll v) = r\<lparr>autoScroll := v\<rparr>"
| "set_rendering r (HighlightCurrentElement v) = r\<lparr>highlightCurrentElement := v\<rparr>"
| "set_rendering r (Theme v) = r\<lparr>theme := v\<rparr>"

fun set_behavior :: "BehaviorConfig \<Rightarrow> BehaviorProp \<Rightarrow> BehaviorConfig" where
  "set_behavior b (AutoCommitDelay v) = b\<lparr>autoCommitDelay := v\<rparr>"
| "set_behavior b (UndoHistorySize v) = b\<lparr>undoHistorySize := Some v\<rparr>"
| "set_behavior b (DefaultDuration v) = b\<lparr>defaultDuration := v\<rparr>"
| "set_behavior b (DefaultOctave v) = b\<lparr>defaultOctave := Some v\<rparr>"
| "set_behavior b (ChordModeTimeout v) = b\<lparr>chordModeTimeout := Some v\<rparr>"
| "set_behavior b (ErrorRecoveryMode v) = b\<lparr>errorRecoveryMode := v\<rparr>"
| "set_behavior b (DebounceDelay v) = b\<lparr>debounceDelay := Some v\<rparr>"

record ConfigurationManager =
  config :: NotationConfig
  customKeyMappings :: "(string \<times> mappings_object) list"




definition setKeyMappings :: "KeyMappingsSetting \<Rightarrow> ConfigurationManager \<Rightarrow> ConfigurationManager" where
  "setKeyMappings km mgr = mgr\<lparr>config := (config mgr)\<lparr>cfg_keyMappings := km\<rparr>\<rparr>"

definition updateRenderingConfig ::
    "RenderingProp list \<Rightarrow> ConfigurationManager \<Rightarrow> ConfigurationManager" where
  "updateRenderingConfig updates mgr =
     mgr\<lparr>config := (config mgr)\<lparr>rendering := foldl set_rendering (rendering (config mgr)) updates\<rparr>\<rparr>"

definition updateBehaviorConfig ::
    "BehaviorProp list \<Rightarrow> ConfigurationManager \<Rightarrow> ConfigurationManager" where
  "updateBehaviorConfig updates mgr =
     mgr\<lparr>config := (config mgr)\<lparr>behavior := foldl set_behavior (behavior (config mgr)) updates\<rparr>\<rparr>"


subsection \<open>JSON documents\<close>












fun sequence :: "'a option list \<Rightarrow> 'a list option" where
  "sequence [] = Some []"
| "sequence (x # xs) =
     (case x of None \<Rightarrow> None
      | Some y \<Rightarrow> (case sequence xs of None \<Rightarrow> None | Some ys \<Rightarrow> Some (y # ys)))"







subsection \<open>Validation and import\<close>











section \<open>The fragment manager over a store of objects\<close>

text \<open>
  Objects have identity: the caller of \<open>getCurrentFragment\<close> and the manager may hold
  references to the same object. Here every object lives in a store at an address, a
  fragment object holds the addresses of its time signature, key signature, element array
  and metadata, and an element array holds the addresses of its elements. A new object is
  placed at the end of the store.
\<close>

type_synonym addr = nat

record FragmentObject =
  o_id :: string
  o_timestamp :: int
  o_timeSignature :: addr
  o_keySignature :: addr
  o_tempo :: rat
  o_elements :: addr
  o_metadata :: addr

datatype object =
    ElementObject MusicalElement
  | ArrayObject "addr list"
  | MetadataObject FragmentMetadata
  | TimeSigObject TimeSig
  | KeySigObject KeySig
  | FragmentObj FragmentObject

type_synonym store = "object list"

definition lookup :: "store \<Rightarrow> addr \<Rightarrow> object option" where
  "lookup st a = (if a < length st then Some (st ! a) else None)"

definition alloc :: "object \<Rightarrow> store \<Rightarrow> store \<times> addr" where
  "alloc obj st = (st @ [obj], length st)"

text \<open>
  Typed reads. \<open>None\<close> is a reference that does not lead to an object of the expected
  kind; the functions below propagate it.
\<close>

definition fragment_at :: "store \<Rightarrow> addr \<Rightarrow> FragmentObject option" where
  "fragment_at st a = (case lookup st a of Some (FragmentObj f) \<Rightarrow> Some f | _ \<Rightarrow> None)"

definition array_at :: "store \<Rightarrow> addr \<Rightarrow> addr list option" where
  "array_at st a = (case lookup st a of Some (ArrayObject rs) \<Rightarrow> Some rs | _ \<Rightarrow> None)"

definition metadata_at :: "store \<Rightarrow> addr \<Rightarrow> FragmentMetadata option" where
  "metadata_at st a = (case lookup st a of Some (MetadataObject md) \<Rightarrow> Some md | _ \<Rightarrow> None)"

definition timesig_at :: "store \<Rightarrow> addr \<Rightarrow> TimeSig option" where
  "timesig_at st a = (case lookup st a of Some (TimeSigObject ts) \<Rightarrow> Some ts | _ \<Rightarrow> None)"

definition keysig_at :: "store \<Rightarrow> addr \<Rightarrow> KeySig option" where
  "keysig_at st a = (case lookup st a of Some (KeySigObject ks) \<Rightarrow> Some ks | _ \<Rightarrow> None)"

definition element_at :: "store \<Rightarrow> addr \<Rightarrow> MusicalElement option" where
  "element_at st a = (case lookup st a of Some (ElementObject e) \<Rightarrow> Some e | _ \<Rightarrow> None)"

text \<open>What a reader of the fragment at an address sees, followed through every reference.\<close>

definition view_fragment :: "store \<Rightarrow> addr \<Rightarrow> MusicalFragment option" where
  "view_fragment st a =
     do {
       f \<leftarrow> fragment_at st a;
       ts \<leftarrow> timesig_at st (o_timeSignature f);
       ks \<leftarrow> keysig_at st (o_keySignature f);
       rs \<leftarrow> array_at st (o_elements f);
       els \<leftarrow> sequence (map (element_at st) rs);
       md \<leftarrow> metadata_at st (o_metadata f);
       Some \<lparr>frag_id = o_id f, timestamp = o_timestamp f, timeSignature = ts, keySignature = ks,
             tempo = o_tempo f, elements = els, metadata = md\<rparr>
     }"

record HistoryEntryRef =
  e_fragment :: addr
  e_timestamp :: int
  e_action :: Action

record ManagerRefs =
  currentFragmentRef :: addr
  historyRefs :: "HistoryEntryRef list"
  historyIndexRef :: int
  maxHistorySizeRef :: int
  committedRefs :: "addr list"

definition view_manager ::
    "store \<Rightarrow> ManagerRefs \<Rightarrow> MusicalFragment option \<times> MusicalFragment option list" where
  "view_manager st m =
     (view_fragment st (currentFragmentRef m),
      map (\<lambda>e. view_fragment st (e_fragment e)) (historyRefs m))"

text \<open>
  The copy that \<open>getCurrentFragment\<close>, \<open>saveToHistory\<close>, \<open>undo\<close> and \<open>redo\<close> all make:
  \<^verbatim>\<open>{...frag, elements: [...frag.elements], metadata: {...frag.metadata}}\<close>. It is a new
  fragment object with a new array and a new metadata object; the array holds the same
  element references, and the time and key signature references are copied as they are.
\<close>

definition copy_fragment :: "store \<Rightarrow> addr \<Rightarrow> (store \<times> addr) option" where
  "copy_fragment st a =
     do {
       f \<leftarrow> fragment_at st a;
       rs \<leftarrow> array_at st (o_elements f);
       md \<leftarrow> metadata_at st (o_metadata f);
       let (st1, arr) = alloc (ArrayObject rs) st;
           (st2, mdr) = alloc (MetadataObject md) st1;
           (st3, r) = alloc (FragmentObj (f\<lparr>o_elements := arr, o_metadata := mdr\<rparr>)) st2
       in Some (st3, r)
     }"

definition ref_getCurrentFragment :: "store \<Rightarrow> ManagerRefs \<Rightarrow> (store \<times> addr) option" where
  "ref_getCurrentFragment st m = copy_fragment st (currentFragmentRef m)"

definition ref_saveToHistory ::
    "Action \<Rightarrow> int \<Rightarrow> store \<Rightarrow> ManagerRefs \<Rightarrow> (store \<times> ManagerRefs) option" where
  "ref_saveToHistory act now st m =
     do {
       (st', snap) \<leftarrow> copy_fragment st (currentFragmentRef m);
       let h1 = (if historyIndexRef m < int (length (historyRefs m)) - 1
                 then slice0 (historyRefs m) (historyIndexRef m + 1) else historyRefs m);
           entry = \<lparr>e_fragment = snap, e_timestamp = now, e_action = act\<rparr>;
           h2 = h1 @ [entry];
           i2 = historyIndexRef m + 1
       in Some (st',
                if int (length h2) > maxHistorySizeRef m
                then m\<lparr>historyRefs := tl h2, historyIndexRef := i2 - 1\<rparr>
                else m\<lparr>historyRefs := h2, historyIndexRef := i2\<rparr>)
     }"

definition ref_createEmptyFragment ::
    "addr \<Rightarrow> addr \<Rightarrow> rat \<Rightarrow> int \<Rightarrow> store \<Rightarrow> store \<times> addr" where
  "ref_createEmptyFragment tsr ksr bpm now st =
     (let (st1, arr) = alloc (ArrayObject []) st;
          (st2, mdr) = alloc (MetadataObject \<lparr>measures = 0, totalDuration = ''0''\<rparr>) st1
      in alloc (FragmentObj
                  \<lparr>o_id = ''fragment_'' @ string_of_int now, o_timestamp = now,
                   o_timeSignature = tsr, o_keySignature = ksr, o_tempo = bpm,
                   o_elements = arr, o_metadata = mdr\<rparr>) st2)"

definition ref_new_FragmentManager ::
    "int \<Rightarrow> TimeSig \<Rightarrow> KeySig \<Rightarrow> rat \<Rightarrow> int \<Rightarrow> store \<Rightarrow> (store \<times> ManagerRefs) option" where
  "ref_new_FragmentManager maxSize ts ks bpm now st =
     (let (st1, tsr) = alloc (TimeSigObject ts) st;
          (st2, ksr) = alloc (KeySigObject ks) st1;
          (st3, cur) = ref_createEmptyFragment tsr ksr bpm now st2
      in ref_saveToHistory Clear now st3
           \<lparr>currentFragmentRef = cur, historyRefs = [], historyIndexRef = - 1,
            maxHistorySizeRef = maxSize, committedRefs = []\<rparr>)"

text \<open>
  \<open>addElement\<close> receives a reference to the caller's element object and pushes that
  reference onto the working array; \<open>updateMetadata\<close> assigns a new metadata object.
\<close>

definition ref_addElement ::
    "addr \<Rightarrow> int \<Rightarrow> store \<Rightarrow> ManagerRefs \<Rightarrow> (AddResult \<times> store \<times> ManagerRefs) option" where
  "ref_addElement er now st m =
     do {
       element \<leftarrow> element_at st er;
       f \<leftarrow> fragment_at st (currentFragmentRef m);
       rs \<leftarrow> array_at st (o_elements f);
       els \<leftarrow> sequence (map (element_at st) rs);
       ts \<leftarrow> timesig_at st (o_timeSignature f);
       let validationErrors = validateMusicalElement element
       in if length validationErrors > 0
          then Some (Failure (join ''; '' validationErrors), st, m)
          else case canAddElementToFragment element els of
                 Some reason \<Rightarrow> Some (Failure reason, st, m)
               | None \<Rightarrow>
                   let st1 = st[o_elements f := ArrayObject (rs @ [er])];
                       (st2, mdr) =
                         alloc (MetadataObject
                                  \<lparr>measures = countMeasures (els @ [element]),
                                   totalDuration = calculateFragmentDuration (els @ [element]) ts\<rparr>)
                               st1;
                       st3 = st2[currentFragmentRef m := FragmentObj (f\<lparr>o_metadata := mdr\<rparr>)]
                   in map_option (Pair Success) (ref_saveToHistory Add now st3 m)
     }"

text \<open>
  A manager holding one note, the fragment it returns, and the store after the caller
  assigns \<open>'D4'\<close> to the \<open>pitch\<close> of the first element of the returned array.
\<close>

definition note_D4 :: MusicalElement where
  "note_D4 = Note ''D4'' (Plain ''quarter'') None None None None"

definition one_note_state :: "(store \<times> ManagerRefs) option" where
  "one_note_state =
     do {
       (st, m) \<leftarrow> ref_new_FragmentManager 20 ts44 ksC 120 0 [];
       let (st1, er) = alloc (ElementObject note_C4) st;
       (res, st2, m2) \<leftarrow> ref_addElement er 1 st1 m;
       Some (st2, m2)
     }"

definition one_note_store :: store where
  "one_note_store = (case one_note_state of Some (st, m) \<Rightarrow> st | None \<Rightarrow> [])"

definition one_note_refs :: ManagerRefs where
  "one_note_refs =
     (case one_note_state of
        Some (st, m) \<Rightarrow> m
      | None \<Rightarrow> \<lparr>currentFragmentRef = 0, historyRefs = [], historyIndexRef = - 1,
                  maxHistorySizeRef = 20, committedRefs = []\<rparr>)"

definition mutated_store :: store where
  "mutated_store =
     (case do {
             (st, r) \<leftarrow> ref_getCurrentFragment one_note_store one_note_refs;
             f \<leftarrow> fragment_at st r;
             rs \<leftarrow> array_at st (o_elements f);
             er \<leftarrow> index_at rs 0;
             Some (st[er := ElementObject note_D4])
           } of
        Some st \<Rightarrow> st
      | None \<Rightarrow> [])"

definition working_elements :: "store \<Rightarrow> MusicalElement list option" where
  "working_elements st = map_option elements (view_fragment st (currentFragmentRef one_note_refs))"

definition snapshot_elements :: "store \<Rightarrow> MusicalElement list option" where
  "snapshot_elements st =
     do {
       e \<leftarrow> index_at (historyRefs one_note_refs) (historyIndexRef one_note_refs);
       v \<leftarrow> view_fragment st (e_fragment e);
       Some (elements v)
     }"

text \<open>
  The store after the caller empties the returned array, replaces the returned metadata
  and assigns a tempo to the returned fragment object.
\<close>

definition overwritten_copy_store :: store where
  "overwritten_copy_store =
     (case ref_getCurrentFragment one_note_store one_note_refs of
        None \<Rightarrow> []
      | Some (st, r) \<Rightarrow>
          (case fragment_at st r of
             None \<Rightarrow> []
           | Some f \<Rightarrow>
               st[o_elements f := ArrayObject [],
                  o_metadata f := MetadataObject \<lparr>measures = 7, totalDuration = ''7''\<rparr>,
                  r := FragmentObj (f\<lparr>o_tempo := 60\<rparr>)]))"

section \<open>Properties of pitch strings\<close>

lemma string_of_digit: "is_digit d \<Longrightarrow> string_of_int (parseInt [d]) = [d]"
  by (auto simp: is_digit_def parseInt_def digit_val_def string_of_int_def
      string_of_nat.simps digit_char_def)

lemma spec_pitch_string_cases:
  assumes "spec_pitch_string p"
  obtains n d where "p = [n, d]" "n \<in> set ''ABCDEFG''" "d \<in> set ''012345678''"
  | n a d where "p = [n, a, d]" "n \<in> set ''ABCDEFG''" "a \<in> set ''#b''" "d \<in> set ''012345678''"
proof (cases p)
  case Nil
  with assms show ?thesis by (simp add: spec_pitch_string_def)
next
  case (Cons n q)
  note p = this
  show ?thesis
  proof (cases q)
    case Nil
    with p assms show ?thesis by (simp add: spec_pitch_string_def)
  next
    case (Cons a r)
    note q = this
    show ?thesis
    proof (cases r)
      case Nil
      with p q assms that(1) show ?thesis by (simp add: spec_pitch_string_def)
    next
      case (Cons d t)
      note r = this
      show ?thesis
      proof (cases t)
        case Nil
        with p q r assms that(2) show ?thesis by (simp add: spec_pitch_string_def)
      next
        case (Cons x y)
        with p q r assms show ?thesis by (simp add: spec_pitch_string_def)
      qed
    qed
  qed
qed

lemma digit_0_8_is_digit: "d \<in> set ''012345678'' \<Longrightarrow> is_digit d"
  by (auto simp: is_digit_def)

text \<open>
  C4. Every pitch string of the form letter \<open>A\<close>..\<open>G\<close>, optional \<open>#\<close> or \<open>b\<close>,
  digit \<open>0\<close>..\<open>8\<close> is parsed successfully, and formatting the parsed note, accidental and
  octave gives the string back.
\<close>

theorem parse_format_roundtrip:
  assumes "spec_pitch_string p"
  shows "\<exists>r. parsePitchString p = Some r \<and> formatPitch (pitch_note r) (pitch_accidental r) (pitch_octave r) = p"
  using assms
proof (cases rule: spec_pitch_string_cases)
  case (1 n d)
  then have "is_digit d" "is_note_letter n"
    by (simp_all add: digit_0_8_is_digit is_note_letter_def)
  with 1 show ?thesis
    by (simp add: parsePitchString_def formatPitch_def string_of_digit)
next
  case (2 n a d)
  then have "is_digit d" "is_note_letter n" "a = CHR ''#'' \<or> a = CHR ''b''"
    by (simp_all add: digit_0_8_is_digit is_note_letter_def)
  with 2 show ?thesis
    by (auto simp: parsePitchString_def formatPitch_def string_of_digit)
qed

theorem parse_format_roundtrip_witness:
  "spec_pitch_string ''F#5'' \<and>
   (\<exists>r. parsePitchString ''F#5'' = Some r \<and> formatPitch (pitch_note r) (pitch_accidental r) (pitch_octave r) = ''F#5'')"
  using parse_format_roundtrip [of "''F#5''"] by (simp add: spec_pitch_string_def)

text \<open>
  C10. The parser accepts any decimal digit as the octave: a letter \<open>A\<close>..\<open>G\<close>,
  optionally followed by \<open>#\<close> or \<open>b\<close>, followed by \<open>9\<close> parses to octave 9, which is
  outside the octave range 0..8, while \<open>isValidPitch\<close> rejects the same string.
\<close>

theorem parse_accepts_octave_9:
  assumes "L \<in> set ''ABCDEFG''" and "acc \<in> set ['''', ''#'', ''b'']"
  shows "(\<exists>r. parsePitchString ([L] @ acc @ ''9'') = Some r \<and> pitch_octave r = 9
              \<and> \<not> isValidOctave (pitch_octave r))
         \<and> \<not> isValidPitch ([L] @ acc @ ''9'')"
proof -
  have L: "is_note_letter L" using assms(1) by (simp add: is_note_letter_def)
  have nine: "is_digit CHR ''9''" "parseInt ''9'' = 9"
    by (simp_all add: is_digit_def parseInt_def digit_val_def)
  from assms(2) consider "acc = ''''" | "acc = ''#''" | "acc = ''b''" by auto
  then show ?thesis
    by cases (simp_all add: L nine parsePitchString_def isValidPitch_def isValidOctave_def)
qed

theorem parse_accepts_octave_9_witness:
  "CHR ''B'' \<in> set ''ABCDEFG'' \<and> ''b'' \<in> set ['''', ''#'', ''b''] \<and>
   (\<exists>r. parsePitchString ''Bb9'' = Some r \<and> pitch_octave r = 9 \<and> \<not> isValidOctave (pitch_octave r))
   \<and> \<not> isValidPitch ''Bb9''"
  using parse_accepts_octave_9 [of "CHR ''B''" "''b''"] by simp

section \<open>Properties of durations\<close>




section \<open>Properties of the fragment manager\<close>

lemma saveToHistory_eq:
  assumes "- 1 \<le> historyIndex m" "historyIndex m < int (length (history m))"
  shows "saveToHistory act now m =
     (let h2 = take (nat (historyIndex m + 1)) (history m)
                 @ [\<lparr>fragment = currentFragment m, entry_timestamp = now, action = act\<rparr>]
      in if historyIndex m + 2 > maxHistorySize m
         then m\<lparr>history := tl h2, historyIndex := historyIndex m\<rparr>
         else m\<lparr>history := h2, historyIndex := historyIndex m + 1\<rparr>)"
proof -
  have len: "int (length (take (nat (historyIndex m + 1)) (history m))) = historyIndex m + 1"
    using assms by simp
  have h1: "(if historyIndex m < int (length (history m)) - 1
             then slice0 (history m) (historyIndex m + 1) else history m)
            = take (nat (historyIndex m + 1)) (history m)"
    using assms by (auto simp: slice0_def)
  show ?thesis
    unfolding saveToHistory_def h1 Let_def using len by auto
qed

lemma saveToHistory_ok:
  assumes "- 1 \<le> historyIndex m" "historyIndex m < int (length (history m))"
    "historyIndex m + 1 \<le> maxHistorySize m" "1 \<le> maxHistorySize m"
  shows "fm_ok (saveToHistory act now m)"
proof -
  define e where "e = \<lparr>fragment = currentFragment m, entry_timestamp = now, action = act\<rparr>"
  define h1 where "h1 = take (nat (historyIndex m + 1)) (history m)"
  have len: "length h1 = nat (historyIndex m + 1)"
    using assms by (simp add: h1_def)
  show ?thesis
  proof (cases "historyIndex m + 2 > maxHistorySize m")
    case True
    then have s: "saveToHistory act now m = m\<lparr>history := tl (h1 @ [e]), historyIndex := historyIndex m\<rparr>"
      using assms by (simp add: saveToHistory_eq Let_def h1_def e_def)
    from True assms have i0: "0 \<le> historyIndex m" by simp
    then have ne: "h1 \<noteq> []" using len by auto
    have nth: "tl (h1 @ [e]) ! nat (historyIndex m) = e"
      using ne len i0 by (cases h1) (auto simp: nth_append nat_add_distrib)
    show ?thesis
      unfolding s fm_ok_def history_ok_def cursor_current_def index_at_def
      using i0 len ne assms nth by (auto simp: nat_add_distrib e_def)
  next
    case False
    then have s: "saveToHistory act now m = m\<lparr>history := h1 @ [e], historyIndex := historyIndex m + 1\<rparr>"
      using assms by (simp add: saveToHistory_eq Let_def h1_def e_def)
    have nth: "(h1 @ [e]) ! nat (historyIndex m + 1) = e"
      using len by (simp add: nth_append)
    show ?thesis
      unfolding s fm_ok_def history_ok_def cursor_current_def index_at_def
      using False len assms nth by (auto simp: e_def)
  qed
qed

lemma saveToHistory_frame:
  "maxHistorySize (saveToHistory act now m) = maxHistorySize m"
  "currentFragment (saveToHistory act now m) = currentFragment m"
  "committedFragments (saveToHistory act now m) = committedFragments m"
  by (simp_all add: saveToHistory_def Let_def)

lemma fm_ok_save:
  assumes "fm_ok m" "1 \<le> maxHistorySize m"
    "historyIndex m' = historyIndex m" "history m' = history m" "maxHistorySize m' = maxHistorySize m"
  shows "fm_ok (saveToHistory act now m')"
  using assms by (intro saveToHistory_ok) (auto simp: fm_ok_def history_ok_def)


lemma addElement_ok:
  assumes "fm_ok m" "1 \<le> maxHistorySize m"
  shows "fm_ok (snd (addElement e now m)) \<and> maxHistorySize (snd (addElement e now m)) = maxHistorySize m"
  using assms
  by (auto simp: addElement_def Let_def saveToHistory_frame updateMetadata_def push_element_def
      intro!: fm_ok_save split: option.splits)

lemma deleteLastElement_ok:
  assumes "fm_ok m" "1 \<le> maxHistorySize m"
  shows "fm_ok (snd (deleteLastElement now m))
         \<and> maxHistorySize (snd (deleteLastElement now m)) = maxHistorySize m"
  using assms
  by (auto simp: deleteLastElement_def Let_def saveToHistory_frame updateMetadata_def set_elements_def
      intro!: fm_ok_save)

lemma deleteElementAt_ok:
  assumes "fm_ok m" "1 \<le> maxHistorySize m"
  shows "fm_ok (snd (deleteElementAt i now m))
         \<and> maxHistorySize (snd (deleteElementAt i now m)) = maxHistorySize m"
  using assms
  by (auto simp: deleteElementAt_def Let_def saveToHistory_frame updateMetadata_def set_elements_def
      intro!: fm_ok_save)

lemma clear_ok:
  assumes "fm_ok m" "1 \<le> maxHistorySize m"
  shows "fm_ok (clear now m) \<and> maxHistorySize (clear now m) = maxHistorySize m"
  using assms
  by (auto simp: clear_def Let_def saveToHistory_frame intro!: fm_ok_save)

lemma commit_ok:
  assumes "1 \<le> maxHistorySize m"
  shows "fm_ok (snd (commit now m)) \<and> maxHistorySize (snd (commit now m)) = maxHistorySize m"
  using assms
  by (auto simp: commit_def Let_def saveToHistory_frame intro!: saveToHistory_ok)

lemma new_FragmentManager_ok:
  assumes "1 \<le> maxSize"
  shows "fm_ok (new_FragmentManager maxSize ts ks bpm now)
         \<and> maxHistorySize (new_FragmentManager maxSize ts ks bpm now) = maxSize"
  using assms
  by (auto simp: new_FragmentManager_def saveToHistory_frame intro!: saveToHistory_ok)

lemma setters_ok:
  assumes "fm_ok m" "1 \<le> maxHistorySize m"
  shows "fm_ok (setTimeSignature n d now m) \<and> maxHistorySize (setTimeSignature n d now m) = maxHistorySize m"
    and "fm_ok (setKeySignature k md now m) \<and> maxHistorySize (setKeySignature k md now m) = maxHistorySize m"
    and "fm_ok (setTempo bpm now m) \<and> maxHistorySize (setTempo bpm now m) = maxHistorySize m"
  using assms
  by (auto simp: setTimeSignature_def setKeySignature_def setTempo_def saveToHistory_frame
      updateMetadata_def intro!: fm_ok_save)

lemma undo_ok:
  assumes "fm_ok m"
  shows "\<exists>b m'. undo m = Inr (b, m') \<and> fm_ok m' \<and> maxHistorySize m' = maxHistorySize m"
  using assms
  by (auto simp: undo_def fm_ok_def history_ok_def cursor_current_def index_at_def)

lemma redo_ok:
  assumes "fm_ok m"
  shows "\<exists>b m'. redo m = Inr (b, m') \<and> fm_ok m' \<and> maxHistorySize m' = maxHistorySize m"
  using assms
  by (auto simp: redo_def fm_ok_def history_ok_def cursor_current_def index_at_def)

lemma fm_step_ok:
  assumes "fm_ok m" "1 \<le> maxHistorySize m"
  shows "\<exists>m'. fm_step c m = Inr m' \<and> fm_ok m' \<and> maxHistorySize m' = maxHistorySize m"
proof (cases c)
  case CallUndo
  with undo_ok [OF assms(1)] show ?thesis by auto
next
  case CallRedo
  with redo_ok [OF assms(1)] show ?thesis by auto
qed (use assms addElement_ok deleteLastElement_ok deleteElementAt_ok clear_ok commit_ok setters_ok
     in simp_all)

lemma fm_run_ok:
  assumes "fm_ok m" "1 \<le> maxHistorySize m"
  shows "\<exists>m'. fm_run cs m = Inr m' \<and> fm_ok m' \<and> maxHistorySize m' = maxHistorySize m"
  using assms
proof (induction cs arbitrary: m)
  case Nil
  then show ?case by simp
next
  case (Cons c cs)
  from fm_step_ok [OF Cons.prems, of c] obtain m1 where
    m1: "fm_step c m = Inr m1" "fm_ok m1" "maxHistorySize m1 = maxHistorySize m" by blast
  with Cons.IH [of m1] Cons.prems show ?case by simp
qed

lemma saveToHistory_at_end:
  assumes "- 1 \<le> historyIndex m" "historyIndex m < int (length (history m))"
  shows "historyIndex (saveToHistory act now m) = int (length (history (saveToHistory act now m))) - 1"
  using assms by (auto simp: saveToHistory_eq Let_def)

lemma saveToHistory_prev:
  assumes "fm_ok m" "2 \<le> maxHistorySize m"
    "history m' = history m" "historyIndex m' = historyIndex m" "maxHistorySize m' = maxHistorySize m"
  shows "0 < historyIndex (saveToHistory act now m')"
    and "map_option fragment (index_at (history (saveToHistory act now m'))
            (historyIndex (saveToHistory act now m') - 1)) = Some (currentFragment m)"
    and "map_option fragment (index_at (history (saveToHistory act now m'))
            (historyIndex (saveToHistory act now m'))) = Some (currentFragment m')"
proof -
  define e where "e = \<lparr>fragment = currentFragment m', entry_timestamp = now, action = act\<rparr>"
  define h1 where "h1 = take (nat (historyIndex m + 1)) (history m)"
  define i where "i = nat (historyIndex m)"
  have i: "historyIndex m = int i" "i < length (history m)"
    using assms(1) by (auto simp: fm_ok_def history_ok_def i_def)
  have len: "length h1 = Suc i" using i by (simp add: h1_def nat_add_distrib)
  have cur: "fragment (history m ! i) = currentFragment m"
    using assms(1) i by (auto simp: fm_ok_def cursor_current_def index_at_def)
  have h1i: "h1 ! i = history m ! i" by (simp add: h1_def i nat_add_distrib)
  have pre: "- 1 \<le> historyIndex m'" "historyIndex m' < int (length (history m'))"
    using assms i by auto
  have s: "saveToHistory act now m' =
      (if int i + 2 > maxHistorySize m
       then m'\<lparr>history := tl (h1 @ [e]), historyIndex := int i\<rparr>
       else m'\<lparr>history := h1 @ [e], historyIndex := int i + 1\<rparr>)"
    unfolding saveToHistory_eq [OF pre] Let_def h1_def e_def assms(3,4,5) i(1) by simp
  show "0 < historyIndex (saveToHistory act now m')"
    using assms(2) by (auto simp: s)
  show "map_option fragment (index_at (history (saveToHistory act now m'))
            (historyIndex (saveToHistory act now m') - 1)) = Some (currentFragment m)"
  proof (cases "int i + 2 > maxHistorySize m")
    case True
    with assms(2) obtain j where j: "i = Suc j" by (cases i) auto
    have "tl (h1 @ [e]) ! j = h1 ! i"
      using len j by (cases h1) (auto simp: nth_append)
    with True show ?thesis
      using len j cur h1i by (simp add: s index_at_def)
  next
    case False
    then show ?thesis
      using len cur h1i by (simp add: s index_at_def nth_append)
  qed
  show "map_option fragment (index_at (history (saveToHistory act now m'))
            (historyIndex (saveToHistory act now m'))) = Some (currentFragment m')"
  proof -
    have "fm_ok (saveToHistory act now m')"
      using assms by (intro fm_ok_save [of m]) auto
    then show ?thesis by (simp add: fm_ok_def cursor_current_def saveToHistory_frame)
  qed
qed

lemma addElement_success:
  assumes "addElement e now m = (Success, m1)"
  shows "m1 = saveToHistory Add now (updateMetadata (push_element e m))"
  using assms by (auto simp: addElement_def Let_def split: if_splits option.splits)

lemma pushed_frame:
  "history (updateMetadata (push_element e m)) = history m"
  "historyIndex (updateMetadata (push_element e m)) = historyIndex m"
  "maxHistorySize (updateMetadata (push_element e m)) = maxHistorySize m"
  "elements (currentFragment (updateMetadata (push_element e m))) = elements (currentFragment m) @ [e]"
  by (simp_all add: updateMetadata_def push_element_def)

lemma add_then_undo_redo:
  assumes ok: "fm_ok m" and big: "2 \<le> maxHistorySize m"
    and add: "addElement e now m = (Success, m1)"
  shows "\<exists>m2 m3. undo m1 = Inr (True, m2) \<and> getElementCount m2 = getElementCount m
           \<and> redo m2 = Inr (True, m3) \<and> getElementCount m3 = getElementCount m + 1
           \<and> (\<forall>e' t m4. addElement e' t m2 = (Success, m4) \<longrightarrow> redo m4 = Inr (False, m4))"
proof -
  define mm where "mm = updateMetadata (push_element e m)"
  have m1: "m1 = saveToHistory Add now mm"
    using addElement_success [OF add] by (simp add: mm_def)
  have fr: "history mm = history m" "historyIndex mm = historyIndex m"
    "maxHistorySize mm = maxHistorySize m"
    by (simp_all add: mm_def pushed_frame)
  have pre: "- 1 \<le> historyIndex mm" "historyIndex mm < int (length (history mm))"
    using ok fr by (auto simp: fm_ok_def history_ok_def)
  note prev = saveToHistory_prev [OF ok big fr, of Add now, folded m1]
  have ok1: "fm_ok m1"
    unfolding m1 using ok big fr by (intro fm_ok_save [of m]) auto
  have end1: "historyIndex m1 = int (length (history m1)) - 1"
    unfolding m1 by (rule saveToHistory_at_end [OF pre])
  from prev(2) obtain en where en: "index_at (history m1) (historyIndex m1 - 1) = Some en"
    "fragment en = currentFragment m" by auto
  define m2 where "m2 = m1\<lparr>historyIndex := historyIndex m1 - 1, currentFragment := fragment en\<rparr>"
  have u: "undo m1 = Inr (True, m2)"
    using prev(1) en by (simp add: undo_def m2_def)
  have c2: "getElementCount m2 = getElementCount m"
    by (simp add: m2_def getElementCount_def en)
  from prev(3) obtain en' where en': "index_at (history m1) (historyIndex m1) = Some en'"
    "fragment en' = currentFragment mm" by auto
  define m3 where "m3 = m2\<lparr>historyIndex := historyIndex m2 + 1, currentFragment := fragment en'\<rparr>"
  have r: "redo m2 = Inr (True, m3)"
    using end1 en' by (simp add: redo_def m2_def m3_def)
  have c3: "getElementCount m3 = getElementCount m + 1"
    by (simp add: m3_def getElementCount_def en' mm_def pushed_frame)
  have after: "redo m4 = Inr (False, m4)" if a: "addElement e' t m2 = (Success, m4)" for e' t m4
  proof -
    have m4: "m4 = saveToHistory Add t (updateMetadata (push_element e' m2))"
      by (rule addElement_success [OF a])
    have "historyIndex m4 = int (length (history m4)) - 1"
      unfolding m4 using prev(1) end1
      by (intro saveToHistory_at_end) (simp_all add: pushed_frame m2_def)
    then show ?thesis by (simp add: redo_def)
  qed
  from u c2 r c3 after show ?thesis by blast
qed

lemma reachable_ok:
  assumes "1 \<le> maxSize" "fm_run calls (new_FragmentManager maxSize ts ks bpm t0) = Inr m"
  shows "fm_ok m \<and> maxHistorySize m = maxSize"
  using fm_run_ok [of "new_FragmentManager maxSize ts ks bpm t0" calls]
    new_FragmentManager_ok [OF assms(1), of ts ks bpm t0] assms by auto

text \<open>
  C6 (amended). In a manager built with \<open>maxHistorySize \<ge> 2\<close>, in any state reached from
  construction by manager calls: undo after one successful \<open>addElement\<close> returns true and
  restores the element count to its value before the add; redo then returns true and
  restores the count after the add; a successful \<open>addElement\<close> made after the undo leaves
  nothing to redo, so \<open>redo\<close> returns false; and \<open>undo\<close> and \<open>redo\<close> at a history
  boundary return false and leave the manager as it is.
\<close>
theorem undo_redo_after_add:
  assumes "2 \<le> maxSize"
    and "fm_run calls (new_FragmentManager maxSize ts ks bpm t0) = Inr m"
    and "addElement e now m = (Success, m1)"
  shows "(\<exists>m2 m3. undo m1 = Inr (True, m2) \<and> getElementCount m2 = getElementCount m
           \<and> redo m2 = Inr (True, m3) \<and> getElementCount m3 = getElementCount m + 1
           \<and> (\<forall>e' t m4. addElement e' t m2 = (Success, m4) \<longrightarrow> redo m4 = Inr (False, m4)))
         \<and> (\<forall>m'. historyIndex m' \<le> 0 \<longrightarrow> undo m' = Inr (False, m'))
         \<and> (\<forall>m'. historyIndex m' \<ge> int (length (history m')) - 1 \<longrightarrow> redo m' = Inr (False, m'))"
proof -
  have "fm_ok m \<and> maxHistorySize m = maxSize"
    using assms(1,2) by (intro reachable_ok) auto
  then show ?thesis
    using add_then_undo_redo [OF _ _ assms(3)] assms(1) by (simp add: undo_def redo_def)
qed

text \<open>
  C5. \<open>addElement\<close> fails exactly when the element is invalid or a time or key signature
  is placed after a note or rest; and whenever it does not return success, the manager
  -- working fragment with its elements and metadata, history, cursor, committed list --
  is exactly as it was before the call.
\<close>
theorem addElement_failure_untouched:
  "((\<exists>msg. fst (addElement e now m) = Failure msg)
      \<longleftrightarrow> (validateMusicalElement e \<noteq> []
           \<or> canAddElementToFragment e (elements (currentFragment m)) \<noteq> None))
   \<and> (fst (addElement e now m) \<noteq> Success \<longrightarrow> snd (addElement e now m) = m)"
  by (auto simp: addElement_def Let_def split: option.splits)

text \<open>
  C7. For every \<open>maxHistorySize \<ge> 1\<close> and every sequence of manager calls after
  construction, no call throws, the history never holds more than \<open>maxHistorySize\<close>
  entries, and the cursor indexes an entry of the history. When the history is full and
  the cursor is at its end, a further snapshot drops the oldest entry, appends the new
  one, and leaves the cursor at the last index.
\<close>
theorem history_bounded_cursor_valid:
  assumes "1 \<le> maxSize"
  shows "\<exists>m. fm_run calls (new_FragmentManager maxSize ts ks bpm now) = Inr m
           \<and> int (length (history m)) \<le> maxSize
           \<and> 0 \<le> historyIndex m \<and> historyIndex m < int (length (history m))
           \<and> (int (length (history m)) = maxSize \<and> historyIndex m = maxSize - 1 \<longrightarrow>
                (\<forall>act t. history (saveToHistory act t m)
                            = tl (history m)
                              @ [\<lparr>fragment = currentFragment m, entry_timestamp = t, action = act\<rparr>]
                        \<and> historyIndex (saveToHistory act t m) = historyIndex m))"
proof -
  obtain m where m: "fm_run calls (new_FragmentManager maxSize ts ks bpm now) = Inr m"
    "fm_ok m" "maxHistorySize m = maxSize"
    using fm_run_ok [of "new_FragmentManager maxSize ts ks bpm now" calls]
      new_FragmentManager_ok [OF assms, of ts ks bpm now] assms by auto
  have evict: "history (saveToHistory act t m)
                 = tl (history m) @ [\<lparr>fragment = currentFragment m, entry_timestamp = t, action = act\<rparr>]
               \<and> historyIndex (saveToHistory act t m) = historyIndex m"
    if full: "int (length (history m)) = maxSize" "historyIndex m = maxSize - 1" for act t
  proof -
    have ne: "history m \<noteq> []" using full assms by auto
    have tk: "take (nat (historyIndex m + 1)) (history m) = history m"
      using full by simp
    have pre: "- 1 \<le> historyIndex m" "historyIndex m < int (length (history m))"
      using full assms by auto
    show ?thesis
      unfolding saveToHistory_eq [OF pre] Let_def tk using full m(3) ne by simp
  qed
  from m evict show ?thesis
    by (auto simp: fm_ok_def history_ok_def)
qed

lemma valid_C4: "validateMusicalElement note_C4 = []"
  by (simp add: note_C4_def validateNote_def isValidPitch_def is_note_letter_def is_digit_def
      isValidNoteName_def toUpperCase_def upper_char_def isValidOctave_def parseInt_def
      digit_val_def isValidDuration_def)

lemma can_add_C4: "canAddElementToFragment note_C4 els = None"
  by (simp add: canAddElementToFragment_def note_C4_def)

lemma add_C4_success: "fst (addElement note_C4 now m) = Success"
  by (simp add: addElement_def Let_def valid_C4 can_add_C4)

theorem addElement_failure_untouched_witness:
  "fst (addElement note_H4 1 tiny_manager) \<noteq> Success
   \<and> snd (addElement note_H4 1 tiny_manager) = tiny_manager"
proof -
  have "fst (addElement note_H4 1 tiny_manager) \<noteq> Success"
    by (simp add: addElement_def note_H4_def validateNote_def isValidPitch_def is_note_letter_def)
  with addElement_failure_untouched [of note_H4 1 tiny_manager] show ?thesis by blast
qed

text \<open>
  C6 as stated fails for \<open>maxHistorySize = 1\<close>: the add evicts the only earlier snapshot,
  so the undo that follows is at the boundary, returns false and leaves the added element.
\<close>
theorem undo_after_add_counterexample:
  "fst (addElement note_C4 1 tiny_manager) = Success
   \<and> undo (snd (addElement note_C4 1 tiny_manager)) = Inr (False, snd (addElement note_C4 1 tiny_manager))
   \<and> getElementCount (snd (addElement note_C4 1 tiny_manager)) \<noteq> getElementCount tiny_manager"
proof -
  define m1 where "m1 = snd (addElement note_C4 1 tiny_manager)"
  have a: "addElement note_C4 1 tiny_manager = (Success, m1)"
    using add_C4_success [of 1 tiny_manager] by (simp add: m1_def prod_eq_iff)
  have ok0: "fm_ok tiny_manager \<and> maxHistorySize tiny_manager = 1"
    unfolding tiny_manager_def by (rule new_FragmentManager_ok) simp
  then have "fm_ok m1 \<and> maxHistorySize m1 = 1"
    using addElement_ok [of tiny_manager note_C4 1] by (simp add: m1_def)
  then have "historyIndex m1 = 0"
    by (auto simp: fm_ok_def history_ok_def)
  then have u: "undo m1 = Inr (False, m1)" by (simp add: undo_def)
  have "elements (currentFragment tiny_manager) = []"
    by (simp add: tiny_manager_def new_FragmentManager_def saveToHistory_frame createEmptyFragment_def)
  moreover have "elements (currentFragment m1) = elements (currentFragment tiny_manager) @ [note_C4]"
    unfolding addElement_success [OF a] by (simp add: saveToHistory_frame pushed_frame)
  ultimately have "getElementCount m1 \<noteq> getElementCount tiny_manager"
    by (simp add: getElementCount_def)
  with u add_C4_success [of 1 tiny_manager] show ?thesis by (simp add: m1_def)
qed

theorem undo_redo_after_add_witness:
  "(2::int) \<le> 20
   \<and> fm_run [] (new_FragmentManager 20 ts44 ksC 120 0) = Inr (new_FragmentManager 20 ts44 ksC 120 0)
   \<and> fst (addElement note_C4 1 (new_FragmentManager 20 ts44 ksC 120 0)) = Success
   \<and> (\<exists>m2 m3. undo (snd (addElement note_C4 1 (new_FragmentManager 20 ts44 ksC 120 0))) = Inr (True, m2)
         \<and> getElementCount m2 = getElementCount (new_FragmentManager 20 ts44 ksC 120 0)
         \<and> redo m2 = Inr (True, m3)
         \<and> getElementCount m3 = getElementCount (new_FragmentManager 20 ts44 ksC 120 0) + 1)"
proof -
  define m0 where "m0 = new_FragmentManager 20 ts44 ksC 120 0"
  have a: "addElement note_C4 1 m0 = (Success, snd (addElement note_C4 1 m0))"
    using add_C4_success [of 1 m0] by (simp add: prod_eq_iff)
  have r: "fm_run [] (new_FragmentManager 20 ts44 ksC 120 0) = Inr m0"
    by (simp add: m0_def)
  have "(2::int) \<le> 20" by simp
  from undo_redo_after_add [OF this r a] add_C4_success [of 1 m0] r
  show ?thesis unfolding m0_def [symmetric] by auto
qed

theorem history_bounded_cursor_valid_witness:
  "(1::int) \<le> 1
   \<and> (\<exists>m. fm_run [CallAddElement note_C4 1] tiny_manager = Inr m
          \<and> int (length (history m)) = 1 \<and> historyIndex m = 0
          \<and> history (saveToHistory Add 2 m)
               = tl (history m) @ [\<lparr>fragment = currentFragment m, entry_timestamp = 2, action = Add\<rparr>]
          \<and> historyIndex (saveToHistory Add 2 m) = historyIndex m)"
proof -
  have "(1::int) \<le> 1" by simp
  from history_bounded_cursor_valid [OF this, of "[CallAddElement note_C4 1]" ts44 ksC 120 0]
  obtain m where m: "fm_run [CallAddElement note_C4 1] tiny_manager = Inr m"
    "int (length (history m)) \<le> 1" "0 \<le> historyIndex m" "historyIndex m < int (length (history m))"
    "int (length (history m)) = 1 \<and> historyIndex m = 1 - 1 \<longrightarrow>
       (\<forall>act t. history (saveToHistory act t m)
                   = tl (history m) @ [\<lparr>fragment = currentFragment m, entry_timestamp = t, action = act\<rparr>]
               \<and> historyIndex (saveToHistory act t m) = historyIndex m)"
    unfolding tiny_manager_def by blast
  from m(2,3,4) have full: "int (length (history m)) = 1" "historyIndex m = 0" by auto
  with m(5) have "history (saveToHistory Add 2 m)
                   = tl (history m) @ [\<lparr>fragment = currentFragment m, entry_timestamp = 2, action = Add\<rparr>]
               \<and> historyIndex (saveToHistory Add 2 m) = historyIndex m"
    by simp
  with m(1) full show ?thesis by auto
qed

section \<open>Properties of commit\<close>







section \<open>The chord flow in the shortcut engine\<close>

lemmas engine_defs =
  processKeyInput_def processControlCommand_def processChordNote_def processDurationChange_def
  processArticulation_def processDynamic_def processNoteInput_def lookup_truthy_def
  DEFAULT_KEY_MAPPINGS_def new_ShortcutEngine_def plain_key_def ctrl_key_def toLowerCase_def
  lower_char_def input_accidental_def formatPitch_def string_of_int_def string_of_nat.simps
  digit_char_def completeChord_def getDurationWithModifiers_def Let_def

lemma chord_flow_1_eq:
  "chord_flow_1 =
     (ControlInput (ActionData ''enter-chord-mode''),
      (new_ShortcutEngine DEFAULT_KEY_MAPPINGS)\<lparr>chordNotes := [''C4''], lastNoteTime := 1\<rparr>)"
  by (simp add: chord_flow_1_def engine_defs)

lemma chord_flow_2_eq:
  "chord_flow_2 =
     (ModifierInput (ChordNotesData [''C4'', ''E4'']),
      (new_ShortcutEngine DEFAULT_KEY_MAPPINGS)\<lparr>chordNotes := [''C4'', ''E4''], lastNoteTime := 2\<rparr>)"
  by (simp add: chord_flow_2_def chord_flow_1_eq) (simp add: engine_defs)

lemma chord_flow_3_eq:
  "chord_flow_3 =
     (ModifierInput (ChordNotesData [''C4'', ''E4'', ''G4'']),
      (new_ShortcutEngine DEFAULT_KEY_MAPPINGS)
        \<lparr>chordNotes := [''C4'', ''E4'', ''G4''], lastNoteTime := 3\<rparr>)"
  by (simp add: chord_flow_3_def chord_flow_2_eq) (simp add: engine_defs)

text \<open>
  C1. On a fresh engine with the default key mappings, after Ctrl+C (capture mode), E and
  G (chord mode) the chord list is \<open>C4, E4, G4\<close>; Enter in chord mode is then answered by
  the control lookup with a \<open>commit\<close> instruction, and the chord list stays as it is. The
  chord branch, had it been reached, would have produced the chord with exactly those
  pitches.
\<close>
theorem chord_flow_enter_commits:
  "fst chord_flow_4 = ControlInput (ActionData ''commit'')
   \<and> chordNotes (snd chord_flow_4) = [''C4'', ''E4'', ''G4'']
   \<and> fst (processChordNote (plain_key ''Enter'') 4 (snd chord_flow_3))
       = ChordInput (Chord [''C4'', ''E4'', ''G4''] (Plain ''quarter'') None None)"
  by (simp add: chord_flow_4_def chord_flow_3_eq) (simp add: engine_defs)

section \<open>Properties of configuration export and import\<close>

lemma sequence_map_Some: "sequence (map (\<lambda>x. Some (f x)) xs) = Some (map f xs)"
  by (induction xs) simp_all














section \<open>Properties of the returned fragment\<close>

lemma lookup_Some_less: "lookup st a = Some obj \<Longrightarrow> a < length st"
  by (simp add: lookup_def split: if_splits)

lemma typed_reads_agree:
  assumes "\<forall>b < length st. lookup st2 b = lookup st b"
  shows "fragment_at st a = Some f \<Longrightarrow> fragment_at st2 a = Some f"
    and "array_at st a = Some rs \<Longrightarrow> array_at st2 a = Some rs"
    and "metadata_at st a = Some md \<Longrightarrow> metadata_at st2 a = Some md"
    and "timesig_at st a = Some ts \<Longrightarrow> timesig_at st2 a = Some ts"
    and "keysig_at st a = Some ks \<Longrightarrow> keysig_at st2 a = Some ks"
    and "element_at st a = Some e \<Longrightarrow> element_at st2 a = Some e"
  using assms lookup_Some_less [of st a]
  by (auto simp: fragment_at_def array_at_def metadata_at_def timesig_at_def keysig_at_def
      element_at_def split: option.splits object.splits)

lemma sequence_Some_all: "sequence (map g xs) = Some ys \<Longrightarrow> x \<in> set xs \<Longrightarrow> \<exists>y. g x = Some y"
  by (induction xs arbitrary: ys) (auto split: option.splits)

lemma elements_agree:
  assumes "\<forall>b < length st. lookup st2 b = lookup st b"
    and "sequence (map (element_at st) rs) = Some els"
  shows "sequence (map (element_at st2) rs) = Some els"
proof -
  have eq: "map (element_at st2) rs = map (element_at st) rs"
  proof (rule map_cong [OF refl])
    fix r assume "r \<in> set rs"
    then obtain e where "element_at st r = Some e"
      using sequence_Some_all [OF assms(2)] by blast
    then show "element_at st2 r = element_at st r"
      using typed_reads_agree(6) [OF assms(1)] by simp
  qed
  show ?thesis unfolding eq by (rule assms(2))
qed

lemma view_fragment_agree:
  assumes "\<forall>b < length st. lookup st2 b = lookup st b"
    and "view_fragment st a = Some v"
  shows "view_fragment st2 a = Some v"
proof -
  from assms(2) obtain f ts ks rs els md where
    r: "fragment_at st a = Some f" "timesig_at st (o_timeSignature f) = Some ts"
       "keysig_at st (o_keySignature f) = Some ks" "array_at st (o_elements f) = Some rs"
       "sequence (map (element_at st) rs) = Some els" "metadata_at st (o_metadata f) = Some md"
    and v: "v = \<lparr>frag_id = o_id f, timestamp = o_timestamp f, timeSignature = ts,
                 keySignature = ks, tempo = o_tempo f, elements = els, metadata = md\<rparr>"
    by (auto simp: view_fragment_def split: Option.bind_splits)
  note a = typed_reads_agree [OF assms(1)]
  show ?thesis
    by (simp add: view_fragment_def a(1) [OF r(1)] a(4) [OF r(2)] a(5) [OF r(3)] a(2) [OF r(4)]
        elements_agree [OF assms(1) r(5)] a(3) [OF r(6)] v)
qed

lemma copy_fragment_Some:
  assumes "view_fragment st a = Some v"
  shows "\<exists>f rs md. fragment_at st a = Some f \<and> array_at st (o_elements f) = Some rs
           \<and> metadata_at st (o_metadata f) = Some md
           \<and> copy_fragment st a
               = Some (st @ [ArrayObject rs, MetadataObject md,
                             FragmentObj (f\<lparr>o_elements := length st, o_metadata := Suc (length st)\<rparr>)],
                       Suc (Suc (length st)))"
  using assms
  by (auto simp: view_fragment_def copy_fragment_def alloc_def split: Option.bind_splits)

lemma lookup_append_old: "b < length st \<Longrightarrow> lookup (st @ xs) b = lookup st b"
  by (simp add: lookup_def nth_append)

text \<open>
  C3 (amended). For every manager whose fragments are well formed, \<open>getCurrentFragment\<close>
  returns a new fragment object that reads the same as the working fragment, and whatever
  the caller writes to that object, to its elements array or to its metadata object
  changes neither the working fragment nor any history snapshot, as seen through all
  their references.
\<close>
theorem returned_copy_isolated:
  assumes cur: "view_fragment st (currentFragmentRef m) = Some v"
    and hist: "\<forall>e \<in> set (historyRefs m). view_fragment st (e_fragment e) \<noteq> None"
  shows "\<exists>st' r f. ref_getCurrentFragment st m = Some (st', r)
           \<and> fragment_at st' r = Some f
           \<and> view_fragment st' r = Some v
           \<and> (\<forall>st''. (\<forall>a. a \<notin> {r, o_elements f, o_metadata f} \<longrightarrow> lookup st'' a = lookup st' a)
                  \<longrightarrow> view_manager st'' m = view_manager st m)"
proof -
  from copy_fragment_Some [OF cur] obtain f rs md where
    f: "fragment_at st (currentFragmentRef m) = Some f"
       "array_at st (o_elements f) = Some rs" "metadata_at st (o_metadata f) = Some md"
    and c: "copy_fragment st (currentFragmentRef m)
              = Some (st @ [ArrayObject rs, MetadataObject md,
                            FragmentObj (f\<lparr>o_elements := length st, o_metadata := Suc (length st)\<rparr>)],
                      Suc (Suc (length st)))"
    by blast
  define f' where "f' = f\<lparr>o_elements := length st, o_metadata := Suc (length st)\<rparr>"
  define st' where "st' = st @ [ArrayObject rs, MetadataObject md, FragmentObj f']"
  define r where "r = Suc (Suc (length st))"
  have g: "ref_getCurrentFragment st m = Some (st', r)"
    by (simp add: ref_getCurrentFragment_def c st'_def r_def f'_def)
  have old: "\<forall>b < length st. lookup st' b = lookup st b"
    by (simp add: st'_def lookup_append_old)
  have fr: "fragment_at st' r = Some f'"
    by (simp add: fragment_at_def lookup_def st'_def r_def nth_append)
  from cur obtain ts ks els where
    t: "timesig_at st (o_timeSignature f) = Some ts" "keysig_at st (o_keySignature f) = Some ks"
       "sequence (map (element_at st) rs) = Some els"
    and v: "v = \<lparr>frag_id = o_id f, timestamp = o_timestamp f, timeSignature = ts,
                 keySignature = ks, tempo = o_tempo f, elements = els, metadata = md\<rparr>"
    using f by (auto simp: view_fragment_def split: Option.bind_splits)
  note a = typed_reads_agree [OF old]
  have arr: "array_at st' (length st) = Some rs" "metadata_at st' (Suc (length st)) = Some md"
    by (simp_all add: array_at_def metadata_at_def lookup_def st'_def nth_append)
  have vr: "view_fragment st' r = Some v"
    by (simp add: view_fragment_def fr f'_def a(4) [OF t(1)] a(5) [OF t(2)] arr
        elements_agree [OF old t(3)] v)
  have iso: "view_manager st'' m = view_manager st m"
    if w: "\<forall>a. a \<notin> {r, o_elements f', o_metadata f'} \<longrightarrow> lookup st'' a = lookup st' a" for st''
  proof -
    have ag: "\<forall>b < length st. lookup st'' b = lookup st b"
      using w old by (simp add: f'_def r_def)
    have "view_fragment st'' (currentFragmentRef m) = view_fragment st (currentFragmentRef m)"
      using view_fragment_agree [OF ag cur] cur by simp
    moreover have "view_fragment st'' (e_fragment e) = view_fragment st (e_fragment e)"
      if "e \<in> set (historyRefs m)" for e
    proof -
      from hist that obtain u where "view_fragment st (e_fragment e) = Some u" by blast
      with view_fragment_agree [OF ag this] show ?thesis by simp
    qed
    ultimately show ?thesis by (simp add: view_manager_def)
  qed
  from g fr vr iso show ?thesis by blast
qed

theorem returned_copy_isolated_witness:
  "view_fragment one_note_store (currentFragmentRef one_note_refs) \<noteq> None
   \<and> list_all (\<lambda>e. view_fragment one_note_store (e_fragment e) \<noteq> None) (historyRefs one_note_refs)
   \<and> overwritten_copy_store \<noteq> []
   \<and> view_manager overwritten_copy_store one_note_refs = view_manager one_note_store one_note_refs"
proof -
  have h1: "view_fragment one_note_store (currentFragmentRef one_note_refs) \<noteq> None"
    by code_simp
  have h2: "list_all (\<lambda>e. view_fragment one_note_store (e_fragment e) \<noteq> None) (historyRefs one_note_refs)"
    by code_simp
  have h3: "overwritten_copy_store \<noteq> []"
    by code_simp
  from h1 obtain v where v: "view_fragment one_note_store (currentFragmentRef one_note_refs) = Some v"
    by blast
  from h2 have h2': "\<forall>e \<in> set (historyRefs one_note_refs).
                      view_fragment one_note_store (e_fragment e) \<noteq> None"
    by (simp add: list_all_iff)
  from returned_copy_isolated [OF v h2'] obtain st' r f where
    g: "ref_getCurrentFragment one_note_store one_note_refs = Some (st', r)"
    and fr: "fragment_at st' r = Some f"
    and iso: "\<And>st''. (\<forall>a. a \<notin> {r, o_elements f, o_metadata f} \<longrightarrow> lookup st'' a = lookup st' a)
                 \<Longrightarrow> view_manager st'' one_note_refs = view_manager one_note_store one_note_refs"
    by blast
  have e: "overwritten_copy_store
             = st'[o_elements f := ArrayObject [],
                   o_metadata f := MetadataObject \<lparr>measures = 7, totalDuration = ''7''\<rparr>,
                   r := FragmentObj (f\<lparr>o_tempo := 60\<rparr>)]"
    by (simp add: overwritten_copy_store_def g fr)
  have "\<forall>a. a \<notin> {r, o_elements f, o_metadata f} \<longrightarrow> lookup overwritten_copy_store a = lookup st' a"
    unfolding e by (simp add: lookup_def)
  from iso [OF this] h1 h2 h3 show ?thesis by simp
qed

text \<open>
  C3 as stated fails for the element objects: the returned array holds the manager's own
  element references, so assigning to the first element of the returned array changes the
  working fragment and the snapshot under the cursor.
\<close>
theorem returned_element_shared_counterexample:
  "working_elements one_note_store = Some [note_C4]
   \<and> working_elements mutated_store = Some [note_D4]
   \<and> snapshot_elements one_note_store = Some [note_C4]
   \<and> snapshot_elements mutated_store = Some [note_D4]"
  by code_simp

end
